theory Spec2Isabelle
  imports Complex_Main "HOL-Library.Multiset"
begin

section \<open>Configuration (config/config.go)\<close>

text \<open>
  Durations are Go \<^verbatim>\<open>time.Duration\<close> values, that is, nanoseconds.
\<close>

definition Second :: int where
  "Second = 1000000000"

definition JikanBaseURL :: string where
  "JikanBaseURL = ''https://api.jikan.moe/v4''"

definition AnimeEndpoint :: string where
  "AnimeEndpoint = ''/anime''"

definition TopAnimeEndpoint :: string where
  "TopAnimeEndpoint = ''/top/anime''"

definition MaxRetries :: int where
  "MaxRetries = 3"

definition RetryDelay :: int where
  "RetryDelay = 1 * Second"

definition RateLimitDelay :: int where
  "RateLimitDelay = 1 * Second"

definition MaxItemsToFetch :: int where
  "MaxItemsToFetch = 1000"

definition OutputDirectory :: string where
  "OutputDirectory = ''anime_data''"

text \<open>\<^verbatim>\<open>filepath.Join(OutputDirectory, name)\<close> on a system whose separator is the slash.\<close>

definition AnimeBasicCSV :: string where
  "AnimeBasicCSV = OutputDirectory @ ''/anime_basic.csv''"

definition AnimeGenresCSV :: string where
  "AnimeGenresCSV = OutputDirectory @ ''/anime_genres.csv''"

definition AnimeStudiosCSV :: string where
  "AnimeStudiosCSV = OutputDirectory @ ''/anime_studios.csv''"

definition AnimeStatisticsCSV :: string where
  "AnimeStatisticsCSV = OutputDirectory @ ''/anime_statistics.csv''"

definition AnimeReviewsCSV :: string where
  "AnimeReviewsCSV = OutputDirectory @ ''/anime_reviews.csv''"


section \<open>The Go library functions the program calls\<close>

text \<open>
  Go strings are byte sequences and \<^verbatim>\<open>len\<close> counts bytes; \<^typ>\<open>string\<close> is a list of
  bytes as well. Go's \<^verbatim>\<open>int\<close> is modelled by \<^typ>\<open>int\<close>: the program adds one to
  counters and subtracts one from a score between 1 and 10, so it never comes near the
  64-bit bounds; where the bounds do matter (\<^verbatim>\<open>strconv.Atoi\<close>) they are written out.
\<close>

subsection \<open>strconv.Itoa, strconv.FormatBool\<close>

definition digitChar :: "nat \<Rightarrow> char" where
  "digitChar d = ''0123456789'' ! d"

fun natDigits :: "nat \<Rightarrow> string" where
  "natDigits n = (if n < 10 then [digitChar n] else natDigits (n div 10) @ [digitChar (n mod 10)])"

declare natDigits.simps [simp del]

definition Itoa :: "int \<Rightarrow> string" where
  "Itoa i = (if i < 0 then CHR ''-'' # natDigits (nat (- i)) else natDigits (nat i))"

definition FormatBool :: "bool \<Rightarrow> string" where
  "FormatBool b = (if b then ''true'' else ''false'')"

subsection \<open>strconv.Atoi\<close>

text \<open>
  \<^verbatim>\<open>strconv.Atoi\<close> accepts an optional sign followed by one or more decimal digits, and
  reports an error for anything else and for a value outside the 64-bit range. The error
  value is not inspected by the program, so the model returns \<^const>\<open>None\<close> for it.
\<close>

definition isDigit :: "char \<Rightarrow> bool" where
  "isDigit c = ((48::nat) \<le> of_char c \<and> of_char c \<le> (57::nat))"

fun digitsValue :: "int \<Rightarrow> string \<Rightarrow> int" where
  "digitsValue acc [] = acc"
| "digitsValue acc (c # cs) = digitsValue (acc * 10 + (of_char c - 48)) cs"

definition parseDigits :: "string \<Rightarrow> int option" where
  "parseDigits s = (if s \<noteq> [] \<and> list_all isDigit s then Some (digitsValue 0 s) else None)"

definition inInt64 :: "int \<Rightarrow> bool" where
  "inInt64 i = (- (2 ^ 63) \<le> i \<and> i \<le> 2 ^ 63 - 1)"

definition Atoi :: "string \<Rightarrow> int option" where
  "Atoi s =
     (case s of
        [] \<Rightarrow> None
      | c # cs \<Rightarrow>
          (case parseDigits (if c = CHR ''-'' \<or> c = CHR ''+'' then cs else s) of
             None \<Rightarrow> None
           | Some n \<Rightarrow>
               (let i = (if c = CHR ''-'' then - n else n)
                in if inInt64 i then Some i else None)))"

subsection \<open>strconv.FormatFloat(f, 'f', 2, 64)\<close>

text \<open>
  A finite \<^verbatim>\<open>float64\<close> is a rational number, and the model carries that exact value.
  With format \<^verbatim>\<open>'f'\<close> and an explicit precision, \<^verbatim>\<open>strconv.FormatFloat\<close> prints the
  exact value rounded to that many decimals, ties to even, with a minus sign for a
  negative value. Not-a-number, the infinities and the negative zero have no rational
  value and are outside the model; a JSON number never decodes to the first three.
\<close>

type_synonym float64 = rat

definition roundHalfEven :: "rat \<Rightarrow> nat" where
  "roundHalfEven q =
     (let f = nat \<lfloor>q\<rfloor>; r = q - of_int \<lfloor>q\<rfloor>
      in if r < 1 / 2 then f
         else if 1 / 2 < r then f + 1
         else if even f then f else f + 1)"

definition twoDigits :: "nat \<Rightarrow> string" where
  "twoDigits n = [digitChar (n div 10), digitChar (n mod 10)]"

definition FormatFloat2 :: "float64 \<Rightarrow> string" where
  "FormatFloat2 x =
     (let n = roundHalfEven (\<bar>x\<bar> * 100)
      in (if x < 0 then ''-'' else '''') @ natDigits (n div 100) @ ''.'' @ twoDigits (n mod 100))"

subsection \<open>strings.ReplaceAll, strings.Join\<close>

text \<open>
  \<^verbatim>\<open>strings.ReplaceAll(s, old, new)\<close> replaces the non-overlapping occurrences of
  \<open>old\<close> from left to right. The program calls it with a one-byte \<open>old\<close> only; the
  special treatment Go gives to an empty \<open>old\<close> is not modelled (the text is returned
  as it is).
\<close>

function ReplaceAll :: "string \<Rightarrow> string \<Rightarrow> string \<Rightarrow> string" where
  "ReplaceAll [] old new = []"
| "ReplaceAll (c # cs) old new =
     (if old \<noteq> [] \<and> take (length old) (c # cs) = old
      then new @ ReplaceAll (drop (length old) (c # cs)) old new
      else c # ReplaceAll cs old new)"
  by pat_completeness auto
termination
  by (relation "measure (\<lambda>(s, old, new). length s)") auto

fun Join :: "string list \<Rightarrow> string \<Rightarrow> string" where
  "Join [] sep = []"
| "Join [x] sep = x"
| "Join (x # y # ys) sep = x @ sep @ Join (y # ys) sep"


section \<open>Errors\<close>

text \<open>
  Go errors as values. \<open>Wrap msg e\<close> is \<^verbatim>\<open>fmt.Errorf(msg + ": %w", e)\<close>. The first three
  constructors are the causes a single attempt of the fetcher can fail with.
\<close>

datatype error =
    TransportError string
  | StatusError int
  | ReadError string
  | JSONError string
  | IOError string
  | Wrap string error

text \<open>\<^verbatim>\<open>fmt.Errorf("failed after %d attempts: %w", config.MaxRetries, err)\<close>\<close>

definition Exhausted :: "error \<Rightarrow> error" where
  "Exhausted e = Wrap (''failed after '' @ Itoa MaxRetries @ '' attempts'') e"


section \<open>The data model (package types)\<close>

text \<open>
  The anonymous structs of the Go types are records of their own (of the images of a
  reviewer, nested two structs deep, the one string is kept). \<^verbatim>\<open>Scores\<close> is a Go map
  from the score, as text, to its votes and percentage. The exporter ranges over it, and Go
  leaves the order of a range over a map unspecified: the model keeps the entries of the
  map as a list, in the order in which this run ranges over them. A map has each key once,
  so the keys of the list are distinct (\<open>wfScores\<close>), and two runs over the same map see two
  lists with the same entries.
\<close>

record tag =
  TagMalID :: int
  TagType :: string
  TagName :: string

record aired =
  From :: string
  To :: string

record score_data =
  Votes :: int
  Percentage :: float64

record anime_statistics =
  Watching :: int
  Completed :: int
  OnHold :: int
  Dropped :: int
  PlanToWatch :: int
  Total :: int
  Scores :: "(string \<times> score_data) list"

definition wfScores :: "(string \<times> score_data) list \<Rightarrow> bool" where
  "wfScores es = distinct (map fst es)"

record anime_data =
  MalID :: int
  URL :: string
  Title :: string
  TitleEnglish :: string
  TitleJapanese :: string
  Type :: string
  Source :: string
  Episodes :: int
  Status :: string
  Airing :: bool
  Aired :: aired
  Duration :: string
  Rating :: string
  Score :: float64
  ScoredBy :: int
  Rank :: int
  Popularity :: int
  Members :: int
  Favorites :: int
  Synopsis :: string
  Background :: string
  Season :: string
  Year :: int
  Genres :: "tag list"
  Studios :: "tag list"
  Statistics :: "anime_statistics option"

record review_user =
  Username :: string
  UserURL :: string
  UserImageURL :: string

record review_anime =
  AnimeMalID :: int
  AnimeURL :: string
  AnimeTitle :: string

record review_data =
  ReviewMalID :: int
  ReviewURL :: string
  ReviewType :: string
  ReviewedAt :: string
  Review :: string
  ReviewScore :: int
  Tags :: "string list"
  IsSpoiler :: bool
  User :: review_user
  Anime :: review_anime

text \<open>\<^verbatim>\<open>SingleAnimeResponse\<close>\<close>

record single_anime_response =
  SingleData :: anime_data

section \<open>The API client (package api)\<close>

subsection \<open>The network and the clock\<close>

text \<open>
  What \<^verbatim>\<open>httpClient.Get\<close> and \<^verbatim>\<open>io.ReadAll\<close> give for one request: a transport error,
  or a response with its status code and the result of reading its body.
  \<^verbatim>\<open>io.ReadAll\<close> returns the bytes read so far together with its error.
\<close>

datatype body_read = ReadAll string | ReadFailed string string

datatype attempt = GetFailed string | Response int body_read

text \<open>
  The server is any function from the number of requests made before and the URL to the
  outcome of the request. The world records the effects of the client: the URLs requested,
  in order, and the total time slept. Logging is informational and is left out.
\<close>

type_synonym server = "nat \<Rightarrow> string \<Rightarrow> attempt"

record world =
  requests :: "string list"
  slept :: int

definition Sleep :: "int \<Rightarrow> world \<Rightarrow> world" where
  "Sleep d w = w\<lparr>slept := slept w + d\<rparr>"

definition httpGet :: "server \<Rightarrow> string \<Rightarrow> world \<Rightarrow> attempt \<times> world" where
  "httpGet srv url w = (srv (length (requests w)) url, w\<lparr>requests := requests w @ [url]\<rparr>)"

subsection \<open>fetchData\<close>

text \<open>
  The retry loop of \<^verbatim>\<open>fetchData\<close>, with its variables \<open>err\<close> and \<open>body\<close> (\<^const>\<open>None\<close> is
  Go's \<^verbatim>\<open>nil\<close>). \<^verbatim>\<open>resp, err = c.httpClient.Get(url)\<close> overwrites \<open>err\<close> on every attempt, so
  after a response has arrived \<open>err\<close> is \<^verbatim>\<open>nil\<close>; the rate-limit branch continues without
  assigning it, the other two failure branches assign it.
\<close>

function fetchLoop ::
  "server \<Rightarrow> string \<Rightarrow> int \<Rightarrow> error option \<Rightarrow> string option \<Rightarrow> world
     \<Rightarrow> (error option \<times> string option) \<times> world" where
  "fetchLoop srv url attempt err body w =
     (if attempt \<le> MaxRetries then
        (case httpGet srv url (if attempt > 1 then Sleep RetryDelay w else w) of
           (GetFailed e, w') \<Rightarrow>
             fetchLoop srv url (attempt + 1) (Some (TransportError e)) body w'
         | (Response code rd, w') \<Rightarrow>
             if code = 429 then
               fetchLoop srv url (attempt + 1) None body (Sleep (RateLimitDelay * 2) w')
             else if code \<noteq> 200 then
               fetchLoop srv url (attempt + 1) (Some (StatusError code)) body w'
             else
               (case rd of
                  ReadFailed partial e \<Rightarrow>
                    fetchLoop srv url (attempt + 1) (Some (ReadError e)) (Some partial) w'
                | ReadAll b \<Rightarrow> ((None, Some b), w')))
      else ((err, body), w))"
  by pat_completeness auto
termination
  by (relation "measure (\<lambda>(srv, url, attempt, err, body, w). nat (MaxRetries + 1 - attempt))") auto

declare fetchLoop.simps [simp del]

definition fetchData :: "server \<Rightarrow> string \<Rightarrow> world \<Rightarrow> (error + string option) \<times> world" where
  "fetchData srv url w =
     (case fetchLoop srv url 1 None None w of
        ((Some e, body), w') \<Rightarrow> (Inl (Exhausted e), w')
      | ((None, body), w') \<Rightarrow> (Inr body, Sleep RateLimitDelay w'))"

subsection \<open>Response envelopes (package types)\<close>

record pagination =
  LastVisiblePage :: int
  HasNextPage :: bool
  CurrentPage :: int
  ItemsCount :: int
  ItemsTotal :: int
  ItemsPerPage :: int

text \<open>\<^verbatim>\<open>AnimeResponse\<close> and \<^verbatim>\<open>ReviewResponse\<close> differ in the type of the items only.\<close>

record 'a page_response =
  Data :: "'a list"
  Pagination :: pagination

text \<open>
  \<^verbatim>\<open>json.Unmarshal\<close> into a value of type \<open>'r\<close> is a parameter of the client: any function
  from the body to an error message or a decoded value.
\<close>

type_synonym 'r unmarshal = "string option \<Rightarrow> string + 'r"

subsection \<open>GetTopAnime and GetAnimeReviews\<close>

text \<open>
  The two functions are the same loop, up to the URL of a page, the item type and the
  message that wraps a decoding error; \<open>pageLoop\<close> is that loop, with the variables
  \<open>all\<close> (\<^verbatim>\<open>allAnime\<close>, \<^verbatim>\<open>allReviews\<close>) and \<open>page\<close>. Its last accumulator, \<open>seen\<close>, is not in
  the source: it records the envelopes decoded so far, never influences the run, and is
  there so that properties can speak of the pages a run has seen.
\<close>

function pageLoop ::
  "server \<Rightarrow> 'a page_response unmarshal \<Rightarrow> string \<Rightarrow> (int \<Rightarrow> string) \<Rightarrow> int
     \<Rightarrow> 'a list \<Rightarrow> int \<Rightarrow> 'a page_response list \<Rightarrow> world
     \<Rightarrow> (error + 'a list \<times> 'a page_response list) \<times> world" where
  "pageLoop srv dec msg url limit all page seen w =
     (if int (length all) < limit then
        (case fetchData srv (url page) w of
           (Inl err, w') \<Rightarrow> (Inl err, w')
         | (Inr body, w') \<Rightarrow>
             (case dec body of
                Inl err \<Rightarrow> (Inl (Wrap msg (JSONError err)), w')
              | Inr response \<Rightarrow>
                  if length (Data response) = 0 \<or> \<not> HasNextPage (Pagination response)
                  then (Inr (all, seen @ [response]), w')
                  else if int (length (all @ Data response)) \<ge> limit
                  then (Inr (take (nat limit) (all @ Data response), seen @ [response]), w')
                  else pageLoop srv dec msg url limit (all @ Data response) (page + 1)
                         (seen @ [response]) w'))
      else (Inr (all, seen), w))"
  by pat_completeness auto
termination
  by (relation "measure (\<lambda>(srv, dec, msg, url, limit, all, page, seen, w).
        nat (limit - int (length all)))") auto

declare pageLoop.simps [simp del]

definition dropTrace :: "(error + 'a list \<times> 'b) \<times> world \<Rightarrow> (error + 'a list) \<times> world" where
  "dropTrace r = (case r of (Inl err, w) \<Rightarrow> (Inl err, w) | (Inr (all, seen), w) \<Rightarrow> (Inr all, w))"

definition topAnimeURL :: "int \<Rightarrow> string" where
  "topAnimeURL page = JikanBaseURL @ TopAnimeEndpoint @ ''?page='' @ Itoa page"

definition reviewsURL :: "int \<Rightarrow> int \<Rightarrow> string" where
  "reviewsURL malID page =
     JikanBaseURL @ AnimeEndpoint @ ''/'' @ Itoa malID @ ''/reviews?page='' @ Itoa page"

definition GetTopAnimePages ::
  "server \<Rightarrow> 'a page_response unmarshal \<Rightarrow> int \<Rightarrow> world
     \<Rightarrow> (error + 'a list \<times> 'a page_response list) \<times> world" where
  "GetTopAnimePages srv dec limit w =
     pageLoop srv dec ''failed to unmarshal response'' topAnimeURL limit [] 1 [] w"

definition GetTopAnime ::
  "server \<Rightarrow> 'a page_response unmarshal \<Rightarrow> int \<Rightarrow> world \<Rightarrow> (error + 'a list) \<times> world" where
  "GetTopAnime srv dec limit w = dropTrace (GetTopAnimePages srv dec limit w)"

definition GetAnimeReviewsPages ::
  "server \<Rightarrow> 'a page_response unmarshal \<Rightarrow> int \<Rightarrow> int \<Rightarrow> world
     \<Rightarrow> (error + 'a list \<times> 'a page_response list) \<times> world" where
  "GetAnimeReviewsPages srv dec malID limit w =
     pageLoop srv dec ''failed to unmarshal reviews'' (reviewsURL malID) limit [] 1 [] w"

definition GetAnimeReviews ::
  "server \<Rightarrow> 'a page_response unmarshal \<Rightarrow> int \<Rightarrow> int \<Rightarrow> world \<Rightarrow> (error + 'a list) \<times> world" where
  "GetAnimeReviews srv dec malID limit w = dropTrace (GetAnimeReviewsPages srv dec malID limit w)"

subsection \<open>GetAnimeDetails\<close>

definition detailsURL :: "int \<Rightarrow> string" where
  "detailsURL malID = JikanBaseURL @ AnimeEndpoint @ ''/'' @ Itoa malID @ ''/full''"

definition GetAnimeDetails ::
  "server \<Rightarrow> single_anime_response unmarshal \<Rightarrow> int \<Rightarrow> world
     \<Rightarrow> (error + anime_data) \<times> world" where
  "GetAnimeDetails srv dec malID w =
     (case fetchData srv (detailsURL malID) w of
        (Inl err, w') \<Rightarrow> (Inl err, w')
      | (Inr body, w') \<Rightarrow>
          (case dec body of
             Inl err \<Rightarrow> (Inl (Wrap ''failed to unmarshal anime details'' (JSONError err)), w')
           | Inr response \<Rightarrow> (Inr (SingleData response), w')))"


section \<open>The CSV exporter (exporter/csv-exporter.go)\<close>

subsection \<open>Files\<close>

text \<open>
  The file system decides which calls fail: \<^verbatim>\<open>os.MkdirAll\<close>, \<^verbatim>\<open>os.Create\<close> of a path, and
  the \<open>n\<close>-th \<^verbatim>\<open>writer.Write\<close> on the file of a path (the header is write 0). A table is the
  list of rows written to a file; the bytes of the file are the rows in the encoding of
  \<^verbatim>\<open>encoding/csv\<close>, a function of the rows.
\<close>

record fsys =
  mkdirErr :: "error option"
  createErr :: "string \<Rightarrow> error option"
  writeErr :: "string \<Rightarrow> nat \<Rightarrow> error option"

type_synonym table = "string list list"

definition Write :: "(nat \<Rightarrow> error option) \<Rightarrow> string list \<Rightarrow> table \<Rightarrow> error + table" where
  "Write werr row file =
     (case werr (length file) of Some err \<Rightarrow> Inl err | None \<Rightarrow> Inr (file @ [row]))"

definition Initialize :: "fsys \<Rightarrow> error option" where
  "Initialize fs = mkdirErr fs"

subsection \<open>ExportAnimeBasicData\<close>

definition basicHeader :: "string list" where
  "basicHeader =
     [''mal_id'', ''title'', ''title_english'', ''title_japanese'', ''type'',
      ''source'', ''episodes'', ''status'', ''airing'', ''aired_from'', ''aired_to'',
      ''duration'', ''rating'', ''score'', ''scored_by'', ''rank'', ''popularity'',
      ''members'', ''favorites'', ''season'', ''year'']"

definition basicRow :: "anime_data \<Rightarrow> string list" where
  "basicRow anime =
     [Itoa (MalID anime),
      Title anime,
      TitleEnglish anime,
      TitleJapanese anime,
      Type anime,
      Source anime,
      Itoa (Episodes anime),
      Status anime,
      FormatBool (Airing anime),
      From (Aired anime),
      To (Aired anime),
      Duration anime,
      Rating anime,
      FormatFloat2 (Score anime),
      Itoa (ScoredBy anime),
      Itoa (Rank anime),
      Itoa (Popularity anime),
      Itoa (Members anime),
      Itoa (Favorites anime),
      Season anime,
      Itoa (Year anime)]"

fun basicLoop :: "(nat \<Rightarrow> error option) \<Rightarrow> anime_data list \<Rightarrow> table \<Rightarrow> error option \<times> table" where
  "basicLoop werr [] file = (None, file)"
| "basicLoop werr (anime # rest) file =
     (case Write werr (basicRow anime) file of
        Inl err \<Rightarrow> (Some err, file)
      | Inr file' \<Rightarrow> basicLoop werr rest file')"

definition ExportAnimeBasicData :: "fsys \<Rightarrow> anime_data list \<Rightarrow> error option \<times> table" where
  "ExportAnimeBasicData fs animeList =
     (case createErr fs AnimeBasicCSV of
        Some err \<Rightarrow> (Some err, [])
      | None \<Rightarrow>
          (case Write (writeErr fs AnimeBasicCSV) basicHeader [] of
             Inl err \<Rightarrow> (Some err, [])
           | Inr file \<Rightarrow> basicLoop (writeErr fs AnimeBasicCSV) animeList file))"

subsection \<open>ExportAnimeGenres and ExportAnimeStudios\<close>

definition tagRow :: "anime_data \<Rightarrow> tag \<Rightarrow> string list" where
  "tagRow anime t = [Itoa (MalID anime), Itoa (TagMalID t), TagName t]"

fun tagInner ::
  "(nat \<Rightarrow> error option) \<Rightarrow> anime_data \<Rightarrow> tag list \<Rightarrow> table \<Rightarrow> error option \<times> table" where
  "tagInner werr anime [] file = (None, file)"
| "tagInner werr anime (t # ts) file =
     (case Write werr (tagRow anime t) file of
        Inl err \<Rightarrow> (Some err, file)
      | Inr file' \<Rightarrow> tagInner werr anime ts file')"

fun tagLoop ::
  "(nat \<Rightarrow> error option) \<Rightarrow> (anime_data \<Rightarrow> tag list) \<Rightarrow> anime_data list \<Rightarrow> table
     \<Rightarrow> error option \<times> table" where
  "tagLoop werr tags [] file = (None, file)"
| "tagLoop werr tags (anime # rest) file =
     (case tagInner werr anime (tags anime) file of
        (Some err, file') \<Rightarrow> (Some err, file')
      | (None, file') \<Rightarrow> tagLoop werr tags rest file')"

definition ExportAnimeGenres :: "fsys \<Rightarrow> anime_data list \<Rightarrow> error option \<times> table" where
  "ExportAnimeGenres fs animeList =
     (case createErr fs AnimeGenresCSV of
        Some err \<Rightarrow> (Some err, [])
      | None \<Rightarrow>
          (case Write (writeErr fs AnimeGenresCSV) [''anime_id'', ''genre_id'', ''genre_name''] [] of
             Inl err \<Rightarrow> (Some err, [])
           | Inr file \<Rightarrow> tagLoop (writeErr fs AnimeGenresCSV) Genres animeList file))"

definition ExportAnimeStudios :: "fsys \<Rightarrow> anime_data list \<Rightarrow> error option \<times> table" where
  "ExportAnimeStudios fs animeList =
     (case createErr fs AnimeStudiosCSV of
        Some err \<Rightarrow> (Some err, [])
      | None \<Rightarrow>
          (case Write (writeErr fs AnimeStudiosCSV) [''anime_id'', ''studio_id'', ''studio_name''] [] of
             Inl err \<Rightarrow> (Some err, [])
           | Inr file \<Rightarrow> tagLoop (writeErr fs AnimeStudiosCSV) Studios animeList file))"

subsection \<open>ExportAnimeStatistics\<close>

definition statisticsHeader :: "string list" where
  "statisticsHeader =
     [''anime_id'', ''watching'', ''completed'', ''on_hold'', ''dropped'',
      ''plan_to_watch'', ''total_stats'',
      ''score_1_votes'', ''score_1_percentage'',
      ''score_2_votes'', ''score_2_percentage'',
      ''score_3_votes'', ''score_3_percentage'',
      ''score_4_votes'', ''score_4_percentage'',
      ''score_5_votes'', ''score_5_percentage'',
      ''score_6_votes'', ''score_6_percentage'',
      ''score_7_votes'', ''score_7_percentage'',
      ''score_8_votes'', ''score_8_percentage'',
      ''score_9_votes'', ''score_9_percentage'',
      ''score_10_votes'', ''score_10_percentage'']"

text \<open>
  One iteration of the range over \<^verbatim>\<open>anime.Statistics.Scores\<close>, on the two slices
  \<^verbatim>\<open>scoreVotes\<close> and \<^verbatim>\<open>scorePercentages\<close>; the whole range is the fold of it over the entries
  in the order of this run.
\<close>

definition scoreStep ::
  "string \<times> score_data \<Rightarrow> string list \<times> string list \<Rightarrow> string list \<times> string list" where
  "scoreStep entry slices =
     (case entry of (scoreStr, scoreData) \<Rightarrow>
      case slices of (scoreVotes, scorePercentages) \<Rightarrow>
        (case Atoi scoreStr of
           None \<Rightarrow> (scoreVotes, scorePercentages)
         | Some scoreInt \<Rightarrow>
             if scoreInt \<ge> 1 \<and> scoreInt \<le> 10
             then (scoreVotes[nat (scoreInt - 1) := Itoa (Votes scoreData)],
                   scorePercentages[nat (scoreInt - 1) := FormatFloat2 (Percentage scoreData)])
             else (scoreVotes, scorePercentages)))"

definition fillScores :: "(string \<times> score_data) list \<Rightarrow> string list \<times> string list" where
  "fillScores entries = fold scoreStep entries (replicate 10 ''0'', replicate 10 ''0'')"

definition scoreColumns :: "string list \<times> string list \<Rightarrow> string list" where
  "scoreColumns slices =
     (case slices of (scoreVotes, scorePercentages) \<Rightarrow>
        concat (map (\<lambda>i. [scoreVotes ! i, scorePercentages ! i]) [0..<10]))"

definition statisticsRow :: "anime_data \<Rightarrow> anime_statistics \<Rightarrow> string list" where
  "statisticsRow anime stats =
     [Itoa (MalID anime),
      Itoa (Watching stats),
      Itoa (Completed stats),
      Itoa (OnHold stats),
      Itoa (Dropped stats),
      Itoa (PlanToWatch stats),
      Itoa (Total stats)] @ scoreColumns (fillScores (Scores stats))"

fun statisticsLoop ::
  "(nat \<Rightarrow> error option) \<Rightarrow> anime_data list \<Rightarrow> table \<Rightarrow> error option \<times> table" where
  "statisticsLoop werr [] file = (None, file)"
| "statisticsLoop werr (anime # rest) file =
     (case Statistics anime of
        None \<Rightarrow> statisticsLoop werr rest file
      | Some stats \<Rightarrow>
          (case Write werr (statisticsRow anime stats) file of
             Inl err \<Rightarrow> (Some err, file)
           | Inr file' \<Rightarrow> statisticsLoop werr rest file'))"

definition ExportAnimeStatistics :: "fsys \<Rightarrow> anime_data list \<Rightarrow> error option \<times> table" where
  "ExportAnimeStatistics fs animeList =
     (case createErr fs AnimeStatisticsCSV of
        Some err \<Rightarrow> (Some err, [])
      | None \<Rightarrow>
          (case Write (writeErr fs AnimeStatisticsCSV) statisticsHeader [] of
             Inl err \<Rightarrow> (Some err, [])
           | Inr file \<Rightarrow> statisticsLoop (writeErr fs AnimeStatisticsCSV) animeList file))"

subsection \<open>ExportAnimeReviews\<close>

definition reviewsHeader :: "string list" where
  "reviewsHeader =
     [''review_id'', ''anime_id'', ''anime_title'',
      ''reviewer_username'', ''score'', ''date'',
      ''is_spoiler'', ''tags'', ''review_text'']"

text \<open>The cleaning and truncation of the review text; \<^verbatim>\<open>len\<close> and the slice count bytes.\<close>

definition reviewText :: "string \<Rightarrow> string" where
  "reviewText review =
     (let reviewText = ReplaceAll (ReplaceAll review [CHR 0x0A] '' '') [CHR 0x0D] '' ''
      in if length reviewText > 32000 then take 32000 reviewText @ ''...'' else reviewText)"

definition reviewRow :: "review_data \<Rightarrow> string list" where
  "reviewRow review =
     [Itoa (ReviewMalID review),
      Itoa (AnimeMalID (Anime review)),
      AnimeTitle (Anime review),
      Username (User review),
      Itoa (ReviewScore review),
      ReviewedAt review,
      FormatBool (IsSpoiler review),
      Join (Tags review) ''|'',
      reviewText (Review review)]"

fun reviewsWriteLoop ::
  "(nat \<Rightarrow> error option) \<Rightarrow> review_data list \<Rightarrow> table \<Rightarrow> error option \<times> table" where
  "reviewsWriteLoop werr [] file = (None, file)"
| "reviewsWriteLoop werr (review # rest) file =
     (case Write werr (reviewRow review) file of
        Inl err \<Rightarrow> (Some err, file)
      | Inr file' \<Rightarrow> reviewsWriteLoop werr rest file')"

definition ExportAnimeReviews :: "fsys \<Rightarrow> review_data list \<Rightarrow> error option \<times> table" where
  "ExportAnimeReviews fs reviews =
     (case createErr fs AnimeReviewsCSV of
        Some err \<Rightarrow> (Some err, [])
      | None \<Rightarrow>
          (case Write (writeErr fs AnimeReviewsCSV) reviewsHeader [] of
             Inl err \<Rightarrow> (Some err, [])
           | Inr file \<Rightarrow> reviewsWriteLoop (writeErr fs AnimeReviewsCSV) reviews file))"


section \<open>The collector (package collector)\<close>

text \<open>
  The loop over the first \<open>limit\<close> entries that fetches the details of each
  (\<^verbatim>\<open>for i, anime := range topAnime\<close>), with its variable \<^verbatim>\<open>enrichedAnime\<close>.
\<close>

fun detailsLoop ::
  "server \<Rightarrow> single_anime_response unmarshal \<Rightarrow> int \<Rightarrow> int \<Rightarrow> anime_data list
     \<Rightarrow> anime_data list \<Rightarrow> world \<Rightarrow> anime_data list \<times> world" where
  "detailsLoop srv dec limit i [] enrichedAnime w = (enrichedAnime, w)"
| "detailsLoop srv dec limit i (anime # rest) enrichedAnime w =
     (if i \<ge> limit then (enrichedAnime, w)
      else
        (case GetAnimeDetails srv dec (MalID anime) w of
           (Inl err, w') \<Rightarrow> detailsLoop srv dec limit (i + 1) rest enrichedAnime w'
         | (Inr detailedAnime, w') \<Rightarrow>
             detailsLoop srv dec limit (i + 1) rest (enrichedAnime @ [detailedAnime])
               (Sleep RateLimitDelay w')))"

text \<open>
  The loop that fetches the reviews of the first \<open>animeForReviews\<close> entries
  (\<^verbatim>\<open>for i := 0; i < animeForReviews; i++\<close>). The caller passes
  \<^verbatim>\<open>min(20, len(topAnime))\<close>, so the index is in range.
\<close>

function reviewsLoop ::
  "server \<Rightarrow> review_data page_response unmarshal \<Rightarrow> int \<Rightarrow> int \<Rightarrow> anime_data list \<Rightarrow> int
     \<Rightarrow> review_data list \<Rightarrow> world \<Rightarrow> review_data list \<times> world" where
  "reviewsLoop srv dec reviewLimit animeForReviews topAnime i allReviews w =
     (if i < animeForReviews then
        (case GetAnimeReviews srv dec (MalID (topAnime ! nat i)) reviewLimit w of
           (Inl err, w') \<Rightarrow>
             reviewsLoop srv dec reviewLimit animeForReviews topAnime (i + 1) allReviews w'
         | (Inr reviews, w') \<Rightarrow>
             reviewsLoop srv dec reviewLimit animeForReviews topAnime (i + 1)
               (allReviews @ reviews) w')
      else (allReviews, w))"
  by pat_completeness auto
termination
  by (relation "measure (\<lambda>(srv, dec, reviewLimit, animeForReviews, topAnime, i, allReviews, w).
        nat (animeForReviews - i))") auto

declare reviewsLoop.simps [simp del]

text \<open>
  \<^verbatim>\<open>CollectAnimeData\<close> returns its error, and the model returns with it the files written,
  in order, and the world.
\<close>

definition CollectAnimeData ::
  "server \<Rightarrow> anime_data page_response unmarshal \<Rightarrow> single_anime_response unmarshal
     \<Rightarrow> review_data page_response unmarshal \<Rightarrow> fsys \<Rightarrow> world
     \<Rightarrow> error option \<times> (string \<times> table) list \<times> world" where
  "CollectAnimeData srv decTop decDetails decReviews fs w =
     (case Initialize fs of
        Some err \<Rightarrow> (Some err, [], w)
      | None \<Rightarrow>
     (case GetTopAnime srv decTop MaxItemsToFetch w of
        (Inl err, w1) \<Rightarrow> (Some (Wrap ''failed to fetch top anime'' err), [], w1)
      | (Inr topAnime, w1) \<Rightarrow>
     (case ExportAnimeBasicData fs topAnime of
        (Some err, basic) \<Rightarrow>
          (Some (Wrap ''failed to export basic anime data'' err), [(AnimeBasicCSV, basic)], w1)
      | (None, basic) \<Rightarrow>
     (case ExportAnimeGenres fs topAnime of
        (Some err, genres) \<Rightarrow>
          (Some (Wrap ''failed to export anime genres'' err),
           [(AnimeBasicCSV, basic), (AnimeGenresCSV, genres)], w1)
      | (None, genres) \<Rightarrow>
     (case ExportAnimeStudios fs topAnime of
        (Some err, studios) \<Rightarrow>
          (Some (Wrap ''failed to export anime studios'' err),
           [(AnimeBasicCSV, basic), (AnimeGenresCSV, genres), (AnimeStudiosCSV, studios)], w1)
      | (None, studios) \<Rightarrow>
     (case detailsLoop srv decDetails (min MaxItemsToFetch 100) 0 topAnime [] w1 of
        (enrichedAnime, w2) \<Rightarrow>
     (case ExportAnimeStatistics fs enrichedAnime of
        (Some err, statistics) \<Rightarrow>
          (Some (Wrap ''failed to export anime statistics'' err),
           [(AnimeBasicCSV, basic), (AnimeGenresCSV, genres), (AnimeStudiosCSV, studios),
            (AnimeStatisticsCSV, statistics)], w2)
      | (None, statistics) \<Rightarrow>
     (case reviewsLoop srv decReviews 50 (min 20 (int (length topAnime))) topAnime 0 [] w2 of
        (allReviews, w3) \<Rightarrow>
     (case ExportAnimeReviews fs allReviews of
        (Some err, reviews) \<Rightarrow>
          (Some (Wrap ''failed to export anime reviews'' err),
           [(AnimeBasicCSV, basic), (AnimeGenresCSV, genres), (AnimeStudiosCSV, studios),
            (AnimeStatisticsCSV, statistics), (AnimeReviewsCSV, reviews)], w3)
      | (None, reviews) \<Rightarrow>
          (None,
           [(AnimeBasicCSV, basic), (AnimeGenresCSV, genres), (AnimeStudiosCSV, studios),
            (AnimeStatisticsCSV, statistics), (AnimeReviewsCSV, reviews)], w3))))))))))"


section \<open>Notions used in the properties\<close>

subsection \<open>Attempts of the fetcher\<close>

text \<open>
  An attempt fails unless it is a response with status 200 whose body is read in full.
  \<open>attemptError\<close> is the value the attempt leaves in the variable \<open>err\<close> of the retry loop.
\<close>

definition attemptFails :: "attempt \<Rightarrow> bool" where
  "attemptFails a = (case a of Response code (ReadAll b) \<Rightarrow> code \<noteq> 200 | _ \<Rightarrow> True)"

definition attemptError :: "attempt \<Rightarrow> error option" where
  "attemptError a =
     (case a of
        GetFailed e \<Rightarrow> Some (TransportError e)
      | Response code rd \<Rightarrow>
          if code = 429 then None
          else if code \<noteq> 200 then Some (StatusError code)
          else (case rd of ReadFailed partial e \<Rightarrow> Some (ReadError e) | ReadAll b \<Rightarrow> None))"

subsection \<open>Runs of the paginator\<close>

text \<open>The outcome of a paginated fetch: whether it succeeded, its collection, its pages.\<close>

definition okRun :: "(error + 'r) \<times> world \<Rightarrow> bool" where
  "okRun run = (case fst run of Inl err \<Rightarrow> False | Inr x \<Rightarrow> True)"

definition collected :: "(error + 'a list \<times> 'a page_response list) \<times> world \<Rightarrow> 'a list" where
  "collected run = (case fst run of Inl err \<Rightarrow> [] | Inr (all, seen) \<Rightarrow> all)"

definition pagesSeen ::
  "(error + 'a list \<times> 'a page_response list) \<times> world \<Rightarrow> 'a page_response list" where
  "pagesSeen run = (case fst run of Inl err \<Rightarrow> [] | Inr (all, seen) \<Rightarrow> seen)"

text \<open>The sum of the item counts of a list of pages.\<close>

definition pageItems :: "'a page_response list \<Rightarrow> int" where
  "pageItems ps = sum_list (map (\<lambda>p. int (length (Data p))) ps)"

text \<open>
  A page meets a termination condition, \<open>n\<close> items having been accumulated before it:
  (a) it is empty, (b) its has-next-page flag is false, (c) with it the accumulated count
  reaches the target.
\<close>

definition endsRun :: "int \<Rightarrow> int \<Rightarrow> 'a page_response \<Rightarrow> bool" where
  "endsRun limit n p =
     (Data p = [] \<or> \<not> HasNextPage (Pagination p) \<or> limit \<le> n + int (length (Data p)))"

text \<open>
  The pages \<open>new\<close> a successful run of the loop adds to its trace, started with \<open>all\<close>
  accumulated, and its result \<open>r\<close>; the invariant of the proofs about the loop.
\<close>

fun runShape :: "int \<Rightarrow> 'a list \<Rightarrow> 'a page_response list \<Rightarrow> 'a list \<Rightarrow> bool" where
  "runShape limit all [] r = (limit \<le> int (length all) \<and> r = all)"
| "runShape limit all (p # ps) r =
     (int (length all) < limit \<and>
      (if Data p = [] \<or> \<not> HasNextPage (Pagination p) then ps = [] \<and> r = all
       else if limit \<le> int (length (all @ Data p))
       then ps = [] \<and> r = take (nat limit) (all @ Data p)
       else runShape limit (all @ Data p) ps r))"

subsection \<open>Concrete inputs\<close>

definition w0 :: world where
  "w0 = \<lparr>requests = [], slept = 0\<rparr>"

definition noErrors :: fsys where
  "noErrors = \<lparr>mkdirErr = None, createErr = (\<lambda>path. None), writeErr = (\<lambda>path n. None)\<rparr>"

definition blankAnime :: anime_data where
  "blankAnime =
     \<lparr>MalID = 0, URL = [], Title = [], TitleEnglish = [], TitleJapanese = [], Type = [],
      Source = [], Episodes = 0, Status = [], Airing = False, Aired = \<lparr>From = [], To = []\<rparr>,
      Duration = [], Rating = [], Score = 0, ScoredBy = 0, Rank = 0, Popularity = 0,
      Members = 0, Favorites = 0, Synopsis = [], Background = [], Season = [], Year = 0,
      Genres = [], Studios = [], Statistics = None\<rparr>"

definition animeWithID :: "int \<Rightarrow> anime_data" where
  "animeWithID n = blankAnime\<lparr>MalID := n\<rparr>"

definition pageOf :: "'a list \<Rightarrow> bool \<Rightarrow> 'a page_response" where
  "pageOf items hasNext =
     \<lparr>Data = items,
      Pagination = \<lparr>LastVisiblePage = 0, HasNextPage = hasNext, CurrentPage = 0,
                    ItemsCount = 0, ItemsTotal = 0, ItemsPerPage = 0\<rparr>\<rparr>"

definition okBody :: "string \<Rightarrow> attempt" where
  "okBody b = Response 200 (ReadAll b)"

text \<open>A decoder for four bodies: a last page, two pages with a successor, an empty page.\<close>

definition decodeTop :: "anime_data page_response unmarshal" where
  "decodeTop body =
     (if body = Some ''last'' then Inr (pageOf [animeWithID 1, animeWithID 2] False)
      else if body = Some ''more'' then Inr (pageOf [animeWithID 1, animeWithID 2] True)
      else if body = Some ''rest'' then Inr (pageOf [animeWithID 3, animeWithID 4] True)
      else if body = Some ''none'' then Inr (pageOf [] False)
      else Inl ''unexpected end of JSON input'')"

text \<open>Servers: rate limiting on every request; a truncated body, then rate limiting.\<close>

definition always429 :: server where
  "always429 n url = Response 429 (ReadAll [])"

definition partialThen429 :: server where
  "partialThen429 n url =
     (if n = 0 then Response 200 (ReadFailed ''{ data: [ { mal_id'' ''unexpected EOF'')
      else Response 429 (ReadAll []))"

text \<open>Servers: one whose every page is a last page with two items; one with two full pages.\<close>

definition lastPageServer :: server where
  "lastPageServer n url = okBody ''last''"

definition twoPagesServer :: server where
  "twoPagesServer n url = (if n = 0 then okBody ''more'' else okBody ''rest'')"


subsection \<open>Review texts\<close>

text \<open>
  The body after the replacement of its line breaks, in the words of the specification:
  every line feed and every carriage return has become one space.
\<close>

definition cleaned :: "string \<Rightarrow> string" where
  "cleaned s = map (\<lambda>c. if c = CHR 0x0A \<or> c = CHR 0x0D then CHR '' '' else c) s"

text \<open>
  The characters of a text in UTF-8 are counted by its bytes that are not continuation
  bytes (\<^verbatim>\<open>utf8.RuneCountInString\<close> on valid UTF-8).
\<close>

definition isContinuationByte :: "char \<Rightarrow> bool" where
  "isContinuationByte c = ((128::nat) \<le> of_char c \<and> of_char c < (192::nat))"

definition runeCount :: "string \<Rightarrow> nat" where
  "runeCount s = length (filter (\<lambda>c. \<not> isContinuationByte c) s)"

text \<open>A text of \<open>n\<close> times the letter e with an acute accent, two bytes each in UTF-8.\<close>

definition accentedReview :: "nat \<Rightarrow> string" where
  "accentedReview n = concat (replicate n [CHR 0xC3, CHR 0xA9])"

definition sampleReview :: review_data where
  "sampleReview =
     \<lparr>ReviewMalID = 7, ReviewURL = [], ReviewType = ''anime'', ReviewedAt = ''2024-01-01'',
      Review = ''Great show.'' @ [CHR 0x0A] @ ''Slow start.'' @ [CHR 0x0D, CHR 0x0A],
      ReviewScore = 9, Tags = [''Recommended'', ''Funny''], IsSpoiler = False,
      User = \<lparr>Username = ''ann'', UserURL = [], UserImageURL = []\<rparr>,
      Anime = \<lparr>AnimeMalID = 1, AnimeURL = [], AnimeTitle = ''Title''\<rparr>\<rparr>"

subsection \<open>Statistics snapshots\<close>

text \<open>The column pair a score key is written to, if any.\<close>

definition scoreIndex :: "string \<Rightarrow> nat option" where
  "scoreIndex scoreStr =
     (case Atoi scoreStr of
        None \<Rightarrow> None
      | Some scoreInt \<Rightarrow>
          if scoreInt \<ge> 1 \<and> scoreInt \<le> 10 then Some (nat (scoreInt - 1)) else None)"

text \<open>No two entries of a snapshot are written to the same column pair.\<close>

definition scoresUnambiguous :: "(string \<times> score_data) list \<Rightarrow> bool" where
  "scoresUnambiguous es =
     (\<forall>e \<in> set es. \<forall>e' \<in> set es.
        e \<noteq> e' \<longrightarrow> scoreIndex (fst e) = None \<or> scoreIndex (fst e) \<noteq> scoreIndex (fst e'))"

text \<open>
  Two runs see the same input when their entries differ at most in the order in which the
  range over a \<^verbatim>\<open>Scores\<close> map yields its entries.
\<close>

definition sameStatistics :: "anime_statistics \<Rightarrow> anime_statistics \<Rightarrow> bool" where
  "sameStatistics s t = (t = s\<lparr>Scores := Scores t\<rparr> \<and> mset (Scores s) = mset (Scores t))"

definition sameAnime :: "anime_data \<Rightarrow> anime_data \<Rightarrow> bool" where
  "sameAnime a b =
     (b = a\<lparr>Statistics := Statistics b\<rparr> \<and>
      rel_option sameStatistics (Statistics a) (Statistics b))"

text \<open>The data rows of the statistics table: one for an entry with a snapshot, none without.\<close>

definition snapshotRows :: "anime_data list \<Rightarrow> table" where
  "snapshotRows animeList =
     concat (map (\<lambda>anime. case Statistics anime of
                             None \<Rightarrow> []
                           | Some stats \<Rightarrow> [statisticsRow anime stats]) animeList)"

text \<open>
  The \<^verbatim>\<open>float64\<close> that the literal 12.34 denotes, and the snapshot entries of the round-trip
  example of the specification.
\<close>

definition float64_12_34 :: float64 where
  "float64_12_34 = 3473401212609495 / 281474976710656"

definition score1 :: "string \<times> score_data" where
  "score1 = (''1'', \<lparr>Votes = 5, Percentage = float64_12_34\<rparr>)"

definition score7 :: "string \<times> score_data" where
  "score7 = (''7'', \<lparr>Votes = 2, Percentage = 3\<rparr>)"

definition blankStatistics :: anime_statistics where
  "blankStatistics =
     \<lparr>Watching = 0, Completed = 0, OnHold = 0, Dropped = 0, PlanToWatch = 0, Total = 0,
      Scores = []\<rparr>"

definition votes :: "int \<Rightarrow> score_data" where
  "votes n = \<lparr>Votes = n, Percentage = 0\<rparr>"

text \<open>
  One entry whose snapshot has the two keys \<^verbatim>\<open>"1"\<close> and \<^verbatim>\<open>"01"\<close>, as two runs may range over
  it; and two entries, one with the snapshot of the example and one without a snapshot.
\<close>

definition ambiguousRun1 :: "anime_data list" where
  "ambiguousRun1 =
     [(animeWithID 1)\<lparr>Statistics :=
        Some (blankStatistics\<lparr>Scores := [(''1'', votes 5), (''01'', votes 9)]\<rparr>)\<rparr>]"

definition ambiguousRun2 :: "anime_data list" where
  "ambiguousRun2 =
     [(animeWithID 1)\<lparr>Statistics :=
        Some (blankStatistics\<lparr>Scores := [(''01'', votes 9), (''1'', votes 5)]\<rparr>)\<rparr>]"

definition plainRun1 :: "anime_data list" where
  "plainRun1 =
     [(animeWithID 1)\<lparr>Statistics := Some (blankStatistics\<lparr>Scores := [score1, score7]\<rparr>)\<rparr>,
      animeWithID 2]"

definition plainRun2 :: "anime_data list" where
  "plainRun2 =
     [(animeWithID 1)\<lparr>Statistics := Some (blankStatistics\<lparr>Scores := [score7, score1]\<rparr>)\<rparr>,
      animeWithID 2]"


subsection \<open>Enrichment passes\<close>

text \<open>
  The outcome of the detail fetch of each entry of a list, in the order and in the worlds
  in which the collector makes them (it sleeps after a success), and the same for the
  review fetches; \<open>succeeded\<close> keeps the values of the fetches that returned no error.
\<close>

fun detailResults ::
  "server \<Rightarrow> single_anime_response unmarshal \<Rightarrow> anime_data list \<Rightarrow> world
     \<Rightarrow> (error + anime_data) list" where
  "detailResults srv dec [] w = []"
| "detailResults srv dec (anime # rest) w =
     (case GetAnimeDetails srv dec (MalID anime) w of
        (Inl err, w') \<Rightarrow> Inl err # detailResults srv dec rest w'
      | (Inr detailedAnime, w') \<Rightarrow>
          Inr detailedAnime # detailResults srv dec rest (Sleep RateLimitDelay w'))"

fun reviewResults ::
  "server \<Rightarrow> review_data page_response unmarshal \<Rightarrow> int \<Rightarrow> anime_data list \<Rightarrow> world
     \<Rightarrow> (error + review_data list) list" where
  "reviewResults srv dec reviewLimit [] w = []"
| "reviewResults srv dec reviewLimit (anime # rest) w =
     (case GetAnimeReviews srv dec (MalID anime) reviewLimit w of
        (result, w') \<Rightarrow> result # reviewResults srv dec reviewLimit rest w')"

fun succeeded :: "(error + 'a) list \<Rightarrow> 'a list" where
  "succeeded [] = []"
| "succeeded (Inl err # rest) = succeeded rest"
| "succeeded (Inr x # rest) = x # succeeded rest"

text \<open>
  A server for a whole run: a ranked list of two entries, then the details of the first
  entry fail three times with status 500 and those of the second arrive, then the reviews
  of the first entry fail and the second entry has one review.
\<close>

definition collectServer :: server where
  "collectServer n url =
     (if n = 0 then okBody ''more''
      else if n = 1 then okBody ''none''
      else if n = 5 then okBody ''details''
      else if n = 9 then okBody ''reviews''
      else if n = 10 then okBody ''none''
      else Response 500 (ReadAll []))"

definition detailedAnime2 :: anime_data where
  "detailedAnime2 =
     (animeWithID 2)\<lparr>Statistics := Some (blankStatistics\<lparr>Scores := [score1, score7]\<rparr>)\<rparr>"

definition decodeDetails :: "single_anime_response unmarshal" where
  "decodeDetails body =
     (if body = Some ''details'' then Inr \<lparr>SingleData = detailedAnime2\<rparr>
      else Inl ''unexpected end of JSON input'')"

text \<open>A decoder whose one page of reviews is a last page with three reviews.\<close>

definition decodeLastReviews :: "review_data page_response unmarshal" where
  "decodeLastReviews body =
     (if body = Some ''last'' then Inr (pageOf [sampleReview, sampleReview, sampleReview] False)
      else Inl ''unexpected end of JSON input'')"

definition decodeReviews :: "review_data page_response unmarshal" where
  "decodeReviews body =
     (if body = Some ''reviews'' then Inr (pageOf [sampleReview] True)
      else if body = Some ''none'' then Inr (pageOf [] False)
      else Inl ''unexpected end of JSON input'')"


section \<open>Properties of the fetcher\<close>

lemma requests_Sleep [simp]: "requests (Sleep d w) = requests w"
  by (simp add: Sleep_def)

lemma fetchLoop_failed_attempt:
  assumes "attempt \<le> MaxRetries" and "attemptFails (srv (length (requests w)) url)"
  shows "\<exists>body' w'. fetchLoop srv url attempt err body w =
           fetchLoop srv url (attempt + 1) (attemptError (srv (length (requests w)) url)) body' w'
         \<and> requests w' = requests w @ [url]"
proof (cases "srv (length (requests w)) url")
  case (GetFailed e)
  with assms(1) show ?thesis
    by (subst fetchLoop.simps) (fastforce simp add: httpGet_def attemptError_def)
next
  case (Response code rd)
  show ?thesis
  proof (cases rd)
    case (ReadAll b)
    with Response assms show ?thesis
      by (subst fetchLoop.simps) (fastforce simp add: httpGet_def attemptError_def attemptFails_def)
  next
    case (ReadFailed partial e)
    with Response assms(1) show ?thesis
      by (subst fetchLoop.simps) (fastforce simp add: httpGet_def attemptError_def)
  qed
qed

lemma fetchLoop_done:
  "MaxRetries < attempt \<Longrightarrow> fetchLoop srv url attempt err body w = ((err, body), w)"
  by (subst fetchLoop.simps) simp

text \<open>
  When the three attempts fail, the variable \<open>err\<close> holds after the loop what the last
  attempt left in it: its cause, or nothing when the last attempt was rate limited.
\<close>

lemma fetchLoop_three_failures:
  assumes f1: "attemptFails (srv (length (requests w)) url)"
    and f2: "attemptFails (srv (length (requests w) + 1) url)"
    and f3: "attemptFails (srv (length (requests w) + 2) url)"
  shows "\<exists>body' w'. fetchLoop srv url 1 None None w =
           ((attemptError (srv (length (requests w) + 2) url), body'), w')"
proof -
  obtain b1 w1 where s1: "fetchLoop srv url 1 None None w =
      fetchLoop srv url 2 (attemptError (srv (length (requests w)) url)) b1 w1"
    and r1: "requests w1 = requests w @ [url]"
    using fetchLoop_failed_attempt [of 1 srv w url None None] f1 by (auto simp: MaxRetries_def)
  obtain b2 w2 where s2:
    "fetchLoop srv url 2 (attemptError (srv (length (requests w)) url)) b1 w1 =
      fetchLoop srv url 3 (attemptError (srv (length (requests w1)) url)) b2 w2"
    and r2: "requests w2 = requests w1 @ [url]"
    using fetchLoop_failed_attempt
      [of 2 srv w1 url "attemptError (srv (length (requests w)) url)" b1] f2 r1
    by (auto simp: MaxRetries_def)
  obtain b3 w3 where s3:
    "fetchLoop srv url 3 (attemptError (srv (length (requests w1)) url)) b2 w2 =
      fetchLoop srv url 4 (attemptError (srv (length (requests w2)) url)) b3 w3"
    using fetchLoop_failed_attempt
      [of 3 srv w2 url "attemptError (srv (length (requests w1)) url)" b2] f3 r1 r2
    by (auto simp: MaxRetries_def)
  have "fetchLoop srv url 1 None None w =
      ((attemptError (srv (length (requests w) + 2) url), b3), w3)"
    using s1 s2 s3 r1 r2 by (simp add: fetchLoop_done MaxRetries_def)
  then show ?thesis by blast
qed

text \<open>
  Exhaustion with a last attempt that is not rate limited: the error wraps the cause of the
  last attempt and no data is returned.
\<close>

lemma fetchData_exhausted:
  assumes "attemptFails (srv (length (requests w)) url)"
    and "attemptFails (srv (length (requests w) + 1) url)"
    and "attemptFails (srv (length (requests w) + 2) url)"
    and "attemptError (srv (length (requests w) + 2) url) = Some e"
  shows "fst (fetchData srv url w) = Inl (Exhausted e)"
  using fetchLoop_three_failures [of srv w url] assms by (auto simp: fetchData_def)

text \<open>
  Exhaustion with a last attempt that is rate limited: no error at all, and the body is
  whatever an earlier attempt left in the variable \<open>body\<close>.
\<close>

lemma fetchData_rate_limited_last:
  assumes "attemptFails (srv (length (requests w)) url)"
    and "attemptFails (srv (length (requests w) + 1) url)"
    and "srv (length (requests w) + 2) url = Response 429 rd"
  shows "\<exists>body. fst (fetchData srv url w) = Inr body"
proof -
  have "attemptFails (srv (length (requests w) + 2) url)"
    and "attemptError (srv (length (requests w) + 2) url) = None"
    using assms(3) by (auto simp: attemptFails_def attemptError_def split: body_read.splits)
  with fetchLoop_three_failures [of srv w url] assms(1,2) show ?thesis
    by (auto simp: fetchData_def)
qed

text \<open>
  Claim C1. When all three attempts fail, \<open>fetchData\<close> should return the exhaustion error
  and no data. The code does not: an endpoint that answers 429 to every attempt makes
  \<open>fetchData\<close> return no error and a nil body after its three requests, and when an earlier
  attempt broke off while reading the body, the bytes read by then are returned as the
  data, again with no error.
\<close>

theorem fetchData_rate_limited_returns_no_error:
  "fetchData always429 url w0 =
     (Inr None, \<lparr>requests = [url, url, url], slept = 9 * Second\<rparr>) \<and>
   attemptFails (always429 0 url) \<and> attemptFails (always429 1 url) \<and>
   attemptFails (always429 2 url) \<and>
   fst (fetchData partialThen429 url w0) = Inr (Some ''{ data: [ { mal_id'') \<and>
   attemptFails (partialThen429 0 url) \<and> attemptFails (partialThen429 1 url) \<and>
   attemptFails (partialThen429 2 url)"
  by (simp add: fetchData_def fetchLoop.simps httpGet_def always429_def partialThen429_def
        w0_def MaxRetries_def Sleep_def RetryDelay_def RateLimitDelay_def attemptFails_def)


section \<open>Properties of the paginator\<close>

lemma pageLoop_not_entered:
  "limit \<le> int (length all) \<Longrightarrow>
     pageLoop srv dec msg url limit all page seen w = (Inr (all, seen), w)"
  by (simp add: pageLoop.simps)

lemma pageLoop_runShape:
  "pageLoop srv dec msg url limit all page seen w = (Inr (r, seen'), w') \<Longrightarrow>
     \<exists>new. seen' = seen @ new \<and> runShape limit all new r"
proof (induction srv dec msg url limit all page seen w rule: pageLoop.induct)
  case (1 srv dec msg url limit all page seen w)
  show ?case
  proof (cases "int (length all) < limit")
    case False
    with "1.prems" show ?thesis by (simp add: pageLoop.simps)
  next
    case True
    note enter = this
    obtain res w1 where fd: "fetchData srv (url page) w = (res, w1)"
      by (cases "fetchData srv (url page) w")
    show ?thesis
    proof (cases res)
      case (Inl e)
      with "1.prems" enter fd show ?thesis by (subst (asm) pageLoop.simps) simp
    next
      case (Inr body)
      note body = this
      show ?thesis
      proof (cases "dec body")
        case (Inl e)
        with "1.prems" enter fd body show ?thesis by (subst (asm) pageLoop.simps) simp
      next
        case (Inr response)
        note resp = this
        show ?thesis
        proof (cases "length (Data response) = 0 \<or> \<not> HasNextPage (Pagination response)")
          case True
          with "1.prems" enter fd body resp have "seen' = seen @ [response]" "r = all"
            by (subst (asm) pageLoop.simps, simp)+
          with True enter show ?thesis by simp
        next
          case False
          note cont = this
          show ?thesis
          proof (cases "int (length (all @ Data response)) \<ge> limit")
            case True
            with "1.prems" enter fd body resp cont
            have "seen' = seen @ [response]" "r = take (nat limit) (all @ Data response)"
              by (subst (asm) pageLoop.simps, simp)+
            with True enter cont show ?thesis by simp
          next
            case False
            with "1.prems" enter fd body resp cont
            have "pageLoop srv dec msg url limit (all @ Data response) (page + 1)
                    (seen @ [response]) w1 = (Inr (r, seen'), w')"
              by (subst (asm) pageLoop.simps) simp
            from "1.IH" [OF enter fd [symmetric] body resp cont False this]
            obtain new where "seen' = (seen @ [response]) @ new"
              and "runShape limit (all @ Data response) new r" by blast
            with enter cont False
            have "seen' = seen @ (response # new) \<and> runShape limit all (response # new) r"
              by simp
            then show ?thesis by blast
          qed
        qed
      qed
    qed
  qed
qed

lemma pageItems_simps [simp]:
  "pageItems [] = 0"
  "pageItems (p # ps) = int (length (Data p)) + pageItems ps"
  "pageItems (ps @ qs) = pageItems ps + pageItems qs"
  by (simp_all add: pageItems_def)

lemma runShape_bound:
  "runShape limit all new r \<Longrightarrow> int (length all) \<le> limit \<Longrightarrow> int (length r) \<le> limit"
  by (induction new arbitrary: all) (auto split: if_splits)

lemma runShape_split:
  "runShape limit all (before @ p # after) r \<Longrightarrow>
     (after = [] \<longleftrightarrow> endsRun limit (int (length all) + pageItems before) p)"
proof (induction before arbitrary: all)
  case Nil
  then show ?case by (cases after) (auto simp: endsRun_def split: if_splits)
next
  case (Cons q before)
  then show ?case by (auto simp: add.assoc split: if_splits)
qed

lemma runShape_last_discarded:
  "runShape limit all (before @ [p]) r \<Longrightarrow>
   Data p = [] \<or> \<not> HasNextPage (Pagination p) \<Longrightarrow>
     r = all @ concat (map Data before)"
proof (induction before arbitrary: all)
  case Nil
  then show ?case by (auto split: if_splits)
next
  case (Cons q before)
  from Cons.prems(1) have "runShape limit (all @ Data q) (before @ [p]) r"
    by (auto split: if_splits)
  from Cons.IH [OF this Cons.prems(2)] show ?case by simp
qed

lemma runShape_last_truncated:
  "runShape limit all (before @ [p]) r \<Longrightarrow> Data p \<noteq> [] \<Longrightarrow>
   HasNextPage (Pagination p) \<Longrightarrow>
     r = take (nat limit) (all @ concat (map Data (before @ [p]))) \<and> int (length r) = limit"
proof (induction before arbitrary: all)
  case Nil
  then show ?case by (auto split: if_splits)
next
  case (Cons q before)
  from Cons.prems(1) have "runShape limit (all @ Data q) (before @ [p]) r"
    by (auto split: if_splits)
  from Cons.IH [OF this Cons.prems(2,3)]
  have "r = take (nat limit) ((all @ Data q) @ concat (map Data (before @ [p])))"
    and len: "int (length r) = limit"
    by blast+
  moreover have "(all @ Data q) @ concat (map Data (before @ [p])) =
      all @ concat (map Data ((q # before) @ [p]))"
    by simp
  ultimately have "r = take (nat limit) (all @ concat (map Data ((q # before) @ [p])))"
    by (simp only:)
  with len show ?case by blast
qed

lemma runShape_length:
  "runShape limit all new r \<Longrightarrow> int (length all) \<le> limit \<Longrightarrow>
   \<forall>p \<in> set new. Data p \<noteq> [] \<longrightarrow> HasNextPage (Pagination p) \<Longrightarrow>
     int (length r) = min limit (int (length all) + pageItems new)"
proof (induction new arbitrary: all)
  case Nil
  then show ?case by simp
next
  case (Cons p ps)
  from Cons.prems(1) have enter: "int (length all) < limit" by simp
  show ?case
  proof (cases "Data p = []")
    case True
    with Cons.prems(1) enter show ?thesis by simp
  next
    case False
    with Cons.prems(3) have next_page: "HasNextPage (Pagination p)" by simp
    show ?thesis
    proof (cases "limit \<le> int (length (all @ Data p))")
      case True
      with Cons.prems(1) False next_page have "ps = []" "r = take (nat limit) (all @ Data p)"
        by simp_all
      with True enter show ?thesis by (simp del: take_append)
    next
      case False
      with Cons.prems(1) \<open>Data p \<noteq> []\<close> next_page
      have "runShape limit (all @ Data p) ps r" by simp
      moreover from False have "int (length (all @ Data p)) \<le> limit" by simp
      moreover from Cons.prems(3)
      have "\<forall>p \<in> set ps. Data p \<noteq> [] \<longrightarrow> HasNextPage (Pagination p)"
        by simp
      ultimately have "int (length r) = min limit (int (length (all @ Data p)) + pageItems ps)"
        by (rule Cons.IH)
      then show ?thesis by (simp add: add.assoc)
    qed
  qed
qed

lemma paged_runShape:
  assumes "run = GetTopAnimePages srv dec limit w \<or>
           run = GetAnimeReviewsPages srv dec malID limit w"
    and "run = (Inr (r, seen), w')"
  shows "runShape limit [] seen r"
  using assms pageLoop_runShape [of srv dec _ _ limit "[]" 1 "[]" w r seen w']
  by (auto simp: GetTopAnimePages_def GetAnimeReviewsPages_def)

lemma runShape_kept_length:
  "runShape limit all new r \<Longrightarrow> int (length all) \<le> limit \<Longrightarrow>
     int (length r) =
       min limit (int (length all) + pageItems (filter (\<lambda>p. HasNextPage (Pagination p)) new))"
proof (induction new arbitrary: all)
  case Nil
  then show ?case by simp
next
  case (Cons p ps)
  from Cons.prems(1) have enter: "int (length all) < limit" by simp
  show ?case
  proof (cases "Data p = [] \<or> \<not> HasNextPage (Pagination p)")
    case True
    with Cons.prems(1) enter show ?thesis by auto
  next
    case False
    show ?thesis
    proof (cases "limit \<le> int (length (all @ Data p))")
      case True
      with Cons.prems(1) False have "ps = []" "r = take (nat limit) (all @ Data p)"
        by simp_all
      with True False enter show ?thesis by (simp del: take_append)
    next
      case lt: False
      with Cons.prems(1) False have "runShape limit (all @ Data p) ps r" by simp
      moreover from lt have "int (length (all @ Data p)) \<le> limit" by simp
      ultimately have "int (length r) = min limit (int (length (all @ Data p)) +
          pageItems (filter (\<lambda>p. HasNextPage (Pagination p)) ps))"
        by (rule Cons.IH)
      with False show ?thesis by (simp add: add.assoc)
    qed
  qed
qed

text \<open>
  The length in general, for a target of zero or more: the pages whose has-next-page flag
  is false add nothing to the collection.
\<close>

lemma paginated_length_of_pages_kept:
  assumes "run = GetTopAnimePages srv dec limit w \<or>
           run = GetAnimeReviewsPages srv dec malID limit w"
    and "run = (Inr (r, seen), w')"
    and "0 \<le> limit"
  shows "int (length r) = min limit (pageItems (filter (\<lambda>p. HasNextPage (Pagination p)) seen))"
  using runShape_kept_length [OF paged_runShape [OF assms(1,2)]] assms(3) by simp

text \<open>
  Claim C10. With a limit of zero or less, \<open>GetTopAnime\<close> and \<open>GetAnimeReviews\<close> return the
  empty collection and no error, and leave the world as it was: no request is made (and
  no time is slept).
\<close>

theorem nonpositive_limit_fetches_nothing:
  "limit \<le> 0 \<Longrightarrow>
     GetTopAnime srv dec limit w = (Inr [], w) \<and>
     GetAnimeReviews srv dec' malID limit w = (Inr [], w)"
  by (simp add: GetTopAnime_def GetAnimeReviews_def GetTopAnimePages_def
        GetAnimeReviewsPages_def pageLoop_not_entered dropTrace_def)

theorem nonpositive_limit_fetches_nothing_witness:
  "(- 3 :: int) \<le> 0 \<and>
   GetTopAnime lastPageServer decodeTop (- 3) w0 = (Inr [], w0) \<and>
   GetAnimeReviews lastPageServer decodeTop 21 (- 3) w0 = (Inr [], w0)"
  using nonpositive_limit_fetches_nothing [of "- 3" lastPageServer decodeTop w0 decodeTop 21]
  by simp

text \<open>
  Where every non-empty page seen has its has-next-page flag set, and the target is zero or
  more, the length of the collection is the minimum of the target and of the sum of the
  item counts of all pages seen.
\<close>

lemma paginated_length_when_every_page_is_kept:
  assumes "run = GetTopAnimePages srv dec limit w \<or>
           run = GetAnimeReviewsPages srv dec malID limit w"
    and "run = (Inr (r, seen), w')"
    and "0 \<le> limit"
    and "\<forall>p \<in> set seen. Data p \<noteq> [] \<longrightarrow> HasNextPage (Pagination p)"
  shows "int (length r) = min limit (pageItems seen)"
  using runShape_length [OF paged_runShape [OF assms(1,2)]] assms(3,4) by simp

text \<open>
  Claim C2. The length of the collection of a successful paginated fetch should be the
  minimum of the target and of the sum of the item counts of all pages seen before the
  loop ends. The code does not give that when a listing ends as listings do, on a
  non-empty page whose has-next-page flag is false: the loop tests the flag and leaves
  before it appends the page. With the target 10 and a ranked list of one page of two
  entries, \<open>GetTopAnime\<close> makes its one request, sees two items and returns none, where the
  minimum is 2; with the target 50 and one page of three reviews, \<open>GetAnimeReviews\<close> sees
  three and returns none.
\<close>

theorem paginated_fetch_drops_final_page:
  "okRun (GetTopAnimePages lastPageServer decodeTop 10 w0) \<and>
   pagesSeen (GetTopAnimePages lastPageServer decodeTop 10 w0) =
     [pageOf [animeWithID 1, animeWithID 2] False] \<and>
   pageItems (pagesSeen (GetTopAnimePages lastPageServer decodeTop 10 w0)) = 2 \<and>
   collected (GetTopAnimePages lastPageServer decodeTop 10 w0) = [] \<and>
   GetTopAnime lastPageServer decodeTop 10 w0 =
     (Inr [], \<lparr>requests = [topAnimeURL 1], slept = 1 * Second\<rparr>) \<and>
   int (length (collected (GetTopAnimePages lastPageServer decodeTop 10 w0))) \<noteq>
     min 10 (pageItems (pagesSeen (GetTopAnimePages lastPageServer decodeTop 10 w0))) \<and>
   okRun (GetAnimeReviewsPages lastPageServer decodeLastReviews 1 50 w0) \<and>
   pagesSeen (GetAnimeReviewsPages lastPageServer decodeLastReviews 1 50 w0) =
     [pageOf [sampleReview, sampleReview, sampleReview] False] \<and>
   pageItems (pagesSeen (GetAnimeReviewsPages lastPageServer decodeLastReviews 1 50 w0)) = 3 \<and>
   collected (GetAnimeReviewsPages lastPageServer decodeLastReviews 1 50 w0) = [] \<and>
   GetAnimeReviews lastPageServer decodeLastReviews 1 50 w0 =
     (Inr [], \<lparr>requests = [reviewsURL 1 1], slept = 1 * Second\<rparr>) \<and>
   int (length (collected (GetAnimeReviewsPages lastPageServer decodeLastReviews 1 50 w0))) \<noteq>
     min 50 (pageItems (pagesSeen (GetAnimeReviewsPages lastPageServer decodeLastReviews 1 50 w0)))"
  by code_simp

text \<open>
  Claim C3, as stated, ends with: the returned collection never exceeds the target in
  length. With the target \<open>-1\<close> the loop is not entered and the empty collection is
  returned, whose length 0 exceeds the target.
\<close>

theorem paginator_bound_counterexample:
  "okRun (GetTopAnimePages lastPageServer decodeTop (- 1) w0) \<and>
   pagesSeen (GetTopAnimePages lastPageServer decodeTop (- 1) w0) = [] \<and>
   \<not> int (length (collected (GetTopAnimePages lastPageServer decodeTop (- 1) w0))) \<le> - 1"
  by code_simp

text \<open>
  Claim C3, amended by the hypothesis that the target is zero or more. For a successful
  run of either function, with the pages it has seen, in order:
  \<^item> a page is the last one seen exactly when it meets one of the conditions (a), (b),
    (c), so the loop ends at the first page that does;
  \<^item> when the last page is empty or has no successor, the result is the items of the
    pages before it;
  \<^item> otherwise the last page has brought the count to the target, and the result is the
    items of all pages cut to exactly the target;
  \<^item> when no page was fetched the target is 0 and the result is empty;
  \<^item> the result never has more items than the target.
  That the loop ends at all is the termination proof of \<open>pageLoop\<close>.
\<close>

theorem paginator_stops_at_first_condition:
  assumes "run = GetTopAnimePages srv dec limit w \<or>
           run = GetAnimeReviewsPages srv dec malID limit w"
    and "run = (Inr (r, seen), w')"
    and "0 \<le> limit"
  shows "(\<forall>before p after. seen = before @ p # after \<longrightarrow>
            (after = [] \<longleftrightarrow> endsRun limit (pageItems before) p)) \<and>
         (\<forall>before p. seen = before @ [p] \<and> (Data p = [] \<or> \<not> HasNextPage (Pagination p)) \<longrightarrow>
            r = concat (map Data before)) \<and>
         (\<forall>before p. seen = before @ [p] \<and> Data p \<noteq> [] \<and> HasNextPage (Pagination p) \<longrightarrow>
            r = take (nat limit) (concat (map Data seen)) \<and> int (length r) = limit) \<and>
         (seen = [] \<longrightarrow> r = [] \<and> limit = 0) \<and>
         int (length r) \<le> limit"
proof -
  note shape = paged_runShape [OF assms(1,2)]
  have "\<forall>before p after. seen = before @ p # after \<longrightarrow>
            (after = [] \<longleftrightarrow> endsRun limit (pageItems before) p)"
    using shape runShape_split [of limit "[]" _ _ _ r] by auto
  moreover have "\<forall>before p. seen = before @ [p] \<and>
            (Data p = [] \<or> \<not> HasNextPage (Pagination p)) \<longrightarrow> r = concat (map Data before)"
    using shape runShape_last_discarded [of limit "[]" _ _ r] by auto
  moreover have "\<forall>before p. seen = before @ [p] \<and> Data p \<noteq> [] \<and>
            HasNextPage (Pagination p) \<longrightarrow>
            r = take (nat limit) (concat (map Data seen)) \<and> int (length r) = limit"
    using shape runShape_last_truncated [of limit "[]" _ _ r] by auto
  moreover have "seen = [] \<longrightarrow> r = [] \<and> limit = 0"
    using shape assms(3) by auto
  moreover have "int (length r) \<le> limit"
    using runShape_bound [OF shape] assms(3) by simp
  ultimately show ?thesis by blast
qed

theorem paginator_stops_at_first_condition_witness:
  "(0 :: int) \<le> 3 \<and>
   okRun (GetTopAnimePages twoPagesServer decodeTop 3 w0) \<and>
   pagesSeen (GetTopAnimePages twoPagesServer decodeTop 3 w0) =
     [pageOf [animeWithID 1, animeWithID 2] True, pageOf [animeWithID 3, animeWithID 4] True] \<and>
   collected (GetTopAnimePages twoPagesServer decodeTop 3 w0) =
     [animeWithID 1, animeWithID 2, animeWithID 3] \<and>
   int (length (collected (GetTopAnimePages twoPagesServer decodeTop 3 w0))) \<le> 3"
proof -
  let ?run = "GetTopAnimePages twoPagesServer decodeTop 3 w0"
  have run: "?run = (Inr (collected ?run, pagesSeen ?run), snd ?run)"
    by code_simp
  have ok: "okRun ?run"
    and seen: "pagesSeen ?run =
      [pageOf [animeWithID 1, animeWithID 2] True, pageOf [animeWithID 3, animeWithID 4] True]"
    and all: "collected ?run = [animeWithID 1, animeWithID 2, animeWithID 3]"
    by code_simp+
  from paginator_stops_at_first_condition [OF disjI1 [OF refl] run] ok seen all
  show ?thesis by simp
qed


section \<open>Properties of the exporter\<close>

subsection \<open>Review texts\<close>

lemma ReplaceAll_byte: "ReplaceAll s [a] [b] = map (\<lambda>c. if c = a then b else c) s"
  by (induction s) simp_all

lemma reviewText_cleaned:
  "reviewText s = (if length (cleaned s) > 32000 then take 32000 (cleaned s) @ ''...'' else cleaned s)"
proof -
  have "ReplaceAll (ReplaceAll s [CHR 0x0A] '' '') [CHR 0x0D] '' '' = cleaned s"
    by (simp add: ReplaceAll_byte cleaned_def)
  then show ?thesis by (simp add: reviewText_def)
qed

lemma cleaned_no_breaks: "CHR 0x0A \<notin> set (cleaned s) \<and> CHR 0x0D \<notin> set (cleaned s)"
  by (auto simp: cleaned_def)

lemma length_cleaned [simp]: "length (cleaned s) = length s"
  by (simp add: cleaned_def)

lemma cleaned_id: "CHR 0x0A \<notin> set s \<Longrightarrow> CHR 0x0D \<notin> set s \<Longrightarrow> cleaned s = s"
  by (induction s) (auto simp: cleaned_def)

lemma reviewText_no_breaks: "CHR 0x0A \<notin> set (reviewText s) \<and> CHR 0x0D \<notin> set (reviewText s)"
  using cleaned_no_breaks [of s] by (auto simp: reviewText_cleaned dest: in_set_takeD)

lemma reviewsWriteLoop_rows:
  "set (snd (reviewsWriteLoop werr reviews written)) \<subseteq> set written \<union> reviewRow ` set reviews"
proof (induction reviews arbitrary: written)
  case Nil
  then show ?case by simp
next
  case (Cons review reviews)
  show ?case
  proof (cases "werr (length written)")
    case None
    with Cons.IH [of "written @ [reviewRow review]"] show ?thesis
      by (auto simp: Write_def)
  next
    case (Some err)
    then show ?thesis by (auto simp: Write_def)
  qed
qed

lemma reviewsWriteLoop_ok:
  "\<forall>n. werr n = None \<Longrightarrow>
     reviewsWriteLoop werr reviews written = (None, written @ map reviewRow reviews)"
  by (induction reviews arbitrary: written) (auto simp: Write_def)

lemma ExportAnimeReviews_rows:
  "set (snd (ExportAnimeReviews fs reviews)) \<subseteq> insert reviewsHeader (reviewRow ` set reviews)"
  using reviewsWriteLoop_rows [of "writeErr fs AnimeReviewsCSV" reviews "[reviewsHeader]"]
  by (auto simp: ExportAnimeReviews_def Write_def split: option.splits)

lemma reviewRow_text: "reviewRow review ! 8 = reviewText (Review review)"
  by (simp add: reviewRow_def)

lemma reviewsHeader_text: "reviewsHeader ! 8 = ''review_text''"
  by (simp add: reviewsHeader_def)

text \<open>
  Claim C4. In every row written to the reviews table, whatever the file system does, the
  field \<open>review_text\<close> (field 8) holds neither a line feed nor a carriage return; the field
  of a review is its body with every line feed and every carriage return replaced by one
  space, then truncated; and when no file operation fails the table is the header followed
  by one row per review, in order.
\<close>

theorem exported_review_text_has_no_line_breaks:
  "(\<forall>row \<in> set (snd (ExportAnimeReviews fs reviews)).
      CHR 0x0A \<notin> set (row ! 8) \<and> CHR 0x0D \<notin> set (row ! 8)) \<and>
   (\<forall>review \<in> set reviews.
      reviewRow review ! 8 =
        (if length (cleaned (Review review)) > 32000
         then take 32000 (cleaned (Review review)) @ ''...'' else cleaned (Review review))) \<and>
   (createErr fs AnimeReviewsCSV = None \<and> (\<forall>n. writeErr fs AnimeReviewsCSV n = None) \<longrightarrow>
      ExportAnimeReviews fs reviews = (None, reviewsHeader # map reviewRow reviews))"
proof -
  have "CHR 0x0A \<notin> set (row ! 8) \<and> CHR 0x0D \<notin> set (row ! 8)"
    if "row \<in> set (snd (ExportAnimeReviews fs reviews))" for row
  proof -
    from that ExportAnimeReviews_rows [of fs reviews]
    consider "row = reviewsHeader" | review where "row = reviewRow review" by auto
    then show ?thesis
    proof cases
      case 1
      then show ?thesis by (simp add: reviewsHeader_text)
    next
      case 2
      then show ?thesis using reviewText_no_breaks [of "Review review"] by (simp add: reviewRow_text)
    qed
  qed
  moreover have "createErr fs AnimeReviewsCSV = None \<and> (\<forall>n. writeErr fs AnimeReviewsCSV n = None) \<longrightarrow>
      ExportAnimeReviews fs reviews = (None, reviewsHeader # map reviewRow reviews)"
    by (simp add: ExportAnimeReviews_def Write_def reviewsWriteLoop_ok)
  ultimately show ?thesis
    by (simp add: reviewRow_text reviewText_cleaned)
qed

theorem exported_review_text_has_no_line_breaks_witness:
  "ExportAnimeReviews noErrors [sampleReview] = (None, [reviewsHeader, reviewRow sampleReview]) \<and>
   reviewRow sampleReview ! 8 = ''Great show. Slow start.  '' \<and>
   CHR 0x0A \<notin> set (reviewRow sampleReview ! 8) \<and>
   CHR 0x0D \<notin> set (reviewRow sampleReview ! 8)"
proof -
  have "reviewRow sampleReview ! 8 = ''Great show. Slow start.  ''"
    by code_simp
  moreover have "createErr noErrors AnimeReviewsCSV = None"
    and "\<forall>n. writeErr noErrors AnimeReviewsCSV n = None"
    by (simp_all add: noErrors_def)
  ultimately show ?thesis
    using exported_review_text_has_no_line_breaks [of noErrors "[sampleReview]"] by simp
qed

lemma length_accented: "length (accentedReview n) = 2 * n"
  by (induction n) (simp_all add: accentedReview_def)

lemma runeCount_accented: "runeCount (accentedReview n) = n"
  by (induction n) (simp_all add: accentedReview_def runeCount_def isContinuationByte_def)

lemma accented_no_breaks: "CHR 0x0A \<notin> set (accentedReview n) \<and> CHR 0x0D \<notin> set (accentedReview n)"
  by (induction n) (simp_all add: accentedReview_def)

lemma accented_add: "accentedReview (m + n) = accentedReview m @ accentedReview n"
  by (simp add: accentedReview_def replicate_add)

lemma runeCount_append: "runeCount (s @ t) = runeCount s + runeCount t"
  by (simp add: runeCount_def)

text \<open>
  Claim C5, as stated, counts characters. The code counts bytes: \<^verbatim>\<open>len\<close> and the slice are
  on the bytes of the text. A body of 16001 two-byte characters without line breaks has at
  most 32000 characters and is not emitted unchanged; and of a body of 32050 such
  characters the export keeps 16000, not 32000, before the marker.
\<close>

theorem review_text_truncation_counterexample:
  "runeCount (accentedReview 16001) \<le> 32000 \<and>
   CHR 0x0A \<notin> set (accentedReview 16001) \<and> CHR 0x0D \<notin> set (accentedReview 16001) \<and>
   reviewText (accentedReview 16001) \<noteq> accentedReview 16001 \<and>
   runeCount (accentedReview 32050) = 32050 \<and>
   runeCount (reviewText (accentedReview 32050)) = 16003"
proof -
  have "length (reviewText (accentedReview 16001)) = 32003"
    using accented_no_breaks [of 16001]
    by (simp add: reviewText_cleaned cleaned_id length_accented)
  then have "reviewText (accentedReview 16001) \<noteq> accentedReview 16001"
    by (auto simp: length_accented)
  moreover have "take 32000 (accentedReview 32050) = accentedReview 16000"
  proof -
    have "accentedReview 32050 = accentedReview 16000 @ accentedReview 16050"
      using accented_add [of 16000 16050] by simp
    then show ?thesis by (simp add: length_accented)
  qed
  then have "reviewText (accentedReview 32050) = accentedReview 16000 @ ''...''"
    using accented_no_breaks [of 32050]
    by (simp add: reviewText_cleaned cleaned_id length_accented)
  then have "runeCount (reviewText (accentedReview 32050)) = 16003"
    by (simp add: runeCount_append runeCount_accented)
      (simp add: runeCount_def isContinuationByte_def)
  ultimately show ?thesis
    using accented_no_breaks [of 16001] by (simp add: runeCount_accented)
qed

text \<open>
  Claim C5, amended to count bytes. A body that, after the replacement of its line breaks,
  is longer than 32000 bytes is exported as its first 32000 bytes followed by the marker;
  in particular a body of 32050 bytes without line breaks is exported as its first 32000
  bytes and the marker; a body of 32000 bytes or fewer is emitted without marker, unchanged
  but for the replacement. The replacement keeps the length, and on a text of ASCII
  characters only the bytes are the characters.
\<close>

theorem review_text_truncation:
  "(length (cleaned body) > 32000 \<longrightarrow> reviewText body = take 32000 (cleaned body) @ ''...'') \<and>
   (length (cleaned body) \<le> 32000 \<longrightarrow> reviewText body = cleaned body) \<and>
   (length body = 32050 \<and> CHR 0x0A \<notin> set body \<and> CHR 0x0D \<notin> set body \<longrightarrow>
      reviewText body = take 32000 body @ ''...'') \<and>
   (CHR 0x0A \<notin> set body \<and> CHR 0x0D \<notin> set body \<longrightarrow> cleaned body = body) \<and>
   length (cleaned body) = length body \<and>
   ((\<forall>c \<in> set body. of_char c < (128::nat)) \<longrightarrow> runeCount body = length body)"
proof -
  have "(\<forall>c \<in> set body. of_char c < (128::nat)) \<longrightarrow> runeCount body = length body"
    by (induction body) (auto simp: runeCount_def isContinuationByte_def)
  then show ?thesis
    by (simp add: reviewText_cleaned cleaned_id)
qed

theorem review_text_truncation_witness:
  "length (replicate 32050 (CHR ''a'')) = 32050 \<and>
   reviewText (replicate 32050 (CHR ''a'')) = replicate 32000 (CHR ''a'') @ ''...'' \<and>
   reviewText ''short'' = ''short''"
  using review_text_truncation [of "replicate 32050 (CHR ''a'')"] review_text_truncation [of "''short''"]
  by (simp add: cleaned_def)

subsection \<open>Statistics rows\<close>

lemma scoreStep_index:
  "scoreStep (k, d) (sv, sp) =
     (case scoreIndex k of
        None \<Rightarrow> (sv, sp)
      | Some i \<Rightarrow> (sv[i := Itoa (Votes d)], sp[i := FormatFloat2 (Percentage d)]))"
  by (simp add: scoreStep_def scoreIndex_def split: option.splits)

lemma scoreStep_ignored: "scoreIndex (fst e) = None \<Longrightarrow> scoreStep e = id"
  by (cases e) (auto simp: scoreStep_index fun_eq_iff)

lemma scoreStep_commute:
  assumes "scoreIndex (fst e) = None \<or> scoreIndex (fst e) \<noteq> scoreIndex (fst e')"
  shows "scoreStep e \<circ> scoreStep e' = scoreStep e' \<circ> scoreStep e"
proof (cases e; cases e')
  fix k d k' d'
  assume e: "e = (k, d)" and e': "e' = (k', d')"
  show ?thesis
  proof (rule ext)
    fix slices :: "string list \<times> string list"
    obtain sv sp where "slices = (sv, sp)" by (cases slices)
    with assms e e' show "(scoreStep e \<circ> scoreStep e') slices = (scoreStep e' \<circ> scoreStep e) slices"
      by (auto simp: scoreStep_index list_update_swap split: option.splits)
  qed
qed

lemma fillScores_permuted:
  assumes "scoresUnambiguous es" and "mset es = mset es'"
  shows "fillScores es = fillScores es'"
proof -
  have "fold scoreStep es = fold scoreStep es'"
  proof (rule fold_multiset_equiv [OF _ assms(2)])
    fix e e'
    assume "e \<in> set es" and "e' \<in> set es"
    with assms(1) show "scoreStep e \<circ> scoreStep e' = scoreStep e' \<circ> scoreStep e"
      by (cases "e = e'") (auto simp: scoresUnambiguous_def intro: scoreStep_commute)
  qed
  then show ?thesis by (simp add: fillScores_def)
qed

lemma fillScores_ignored:
  "scoreIndex k = None \<Longrightarrow> fillScores (xs @ (k, d) # ys) = fillScores (xs @ ys)"
  by (simp add: fillScores_def scoreStep_ignored)

lemma scoreIndex_None_iff:
  "scoreIndex k = None \<longleftrightarrow> (Atoi k = None \<or> (\<exists>n. Atoi k = Some n \<and> (n < 1 \<or> 10 < n)))"
  by (auto simp: scoreIndex_def split: option.splits)

lemma score_columns_1_7:
  "scoreColumns (fillScores [score1, score7]) =
     [''5'', ''12.34'', ''0'', ''0'', ''0'', ''0'', ''0'', ''0'', ''0'', ''0'', ''0'', ''0'',
      ''2'', ''3.00'', ''0'', ''0'', ''0'', ''0'', ''0'', ''0'']"
  "scoreColumns (fillScores [score7, score1]) =
     [''5'', ''12.34'', ''0'', ''0'', ''0'', ''0'', ''0'', ''0'', ''0'', ''0'', ''0'', ''0'',
      ''2'', ''3.00'', ''0'', ''0'', ''0'', ''0'', ''0'', ''0'']"
  by code_simp+

text \<open>
  Claim C7. For a snapshot whose scores are the keys \<^verbatim>\<open>"1"\<close>, with 5 votes and 12.34 percent,
  and \<^verbatim>\<open>"7"\<close>, with 2 votes and 3.00 percent, in either order of the range, the twenty score
  columns of the row (the fields after the first seven) are the pair of score 1, five
  pairs of defaults, the pair of score 7 and three pairs of defaults. And an entry of the
  map whose key is not a number, or is a number outside 1 to 10, leaves the row as it is
  without that entry.
\<close>

theorem statistics_row_scores:
  "(Scores stats = [score1, score7] \<or> Scores stats = [score7, score1] \<longrightarrow>
      drop 7 (statisticsRow anime stats) =
        [''5'', ''12.34'', ''0'', ''0'', ''0'', ''0'', ''0'', ''0'', ''0'', ''0'', ''0'', ''0'',
         ''2'', ''3.00'', ''0'', ''0'', ''0'', ''0'', ''0'', ''0'']) \<and>
   (Atoi k = None \<or> (\<exists>n. Atoi k = Some n \<and> (n < 1 \<or> 10 < n)) \<longrightarrow>
      statisticsRow anime (stats\<lparr>Scores := before @ (k, d) # after\<rparr>) =
      statisticsRow anime (stats\<lparr>Scores := before @ after\<rparr>))"
  using fillScores_ignored [of k before d after] scoreIndex_None_iff [of k]
  by (auto simp: statisticsRow_def score_columns_1_7)

theorem statistics_row_scores_witness:
  "drop 7 (statisticsRow (animeWithID 1) (blankStatistics\<lparr>Scores := [score7, score1]\<rparr>)) =
     [''5'', ''12.34'', ''0'', ''0'', ''0'', ''0'', ''0'', ''0'', ''0'', ''0'', ''0'', ''0'',
      ''2'', ''3.00'', ''0'', ''0'', ''0'', ''0'', ''0'', ''0''] \<and>
   Atoi ''11'' = Some 11 \<and>
   statisticsRow (animeWithID 1) (blankStatistics\<lparr>Scores := [score1, (''11'', votes 4), score7]\<rparr>) =
   statisticsRow (animeWithID 1) (blankStatistics\<lparr>Scores := [score1, score7]\<rparr>) \<and>
   Atoi ''ten'' = None \<and>
   statisticsRow (animeWithID 1) (blankStatistics\<lparr>Scores := [score1, (''ten'', votes 4), score7]\<rparr>) =
   statisticsRow (animeWithID 1) (blankStatistics\<lparr>Scores := [score1, score7]\<rparr>)"
proof -
  have a11: "Atoi ''11'' = Some 11" and aten: "Atoi ''ten'' = None"
    by code_simp+
  show ?thesis
    using statistics_row_scores [of "blankStatistics\<lparr>Scores := [score7, score1]\<rparr>" "animeWithID 1" "''11''"
                 "[score1]" "votes 4" "[score7]"]
          statistics_row_scores [of "blankStatistics\<lparr>Scores := [score7, score1]\<rparr>" "animeWithID 1" "''ten''"
                 "[score1]" "votes 4" "[score7]"]
          a11 aten
    by simp
qed

lemma statisticsLoop_skips:
  "statisticsLoop werr animeList written =
     statisticsLoop werr (filter (\<lambda>anime. Statistics anime \<noteq> None) animeList) written"
  by (induction animeList arbitrary: written) (auto split: option.splits sum.splits)

lemma statisticsLoop_ok:
  "\<forall>n. werr n = None \<Longrightarrow>
     statisticsLoop werr animeList written = (None, written @ snapshotRows animeList)"
  by (induction animeList arbitrary: written) (auto simp: snapshotRows_def Write_def split: option.splits)

lemma snapshotRows_count:
  "length (snapshotRows animeList) = length (filter (\<lambda>anime. Statistics anime \<noteq> None) animeList)"
  by (induction animeList) (auto simp: snapshotRows_def split: option.splits)

lemma snapshotRows_ids:
  "map hd (snapshotRows animeList) =
     map (\<lambda>anime. Itoa (MalID anime)) (filter (\<lambda>anime. Statistics anime \<noteq> None) animeList)"
  by (induction animeList) (auto simp: snapshotRows_def statisticsRow_def split: option.splits)

text \<open>
  Claim C8. The export of the statistics is the export of the entries that have a snapshot:
  the entries without one change neither the rows nor the error. When no file operation
  fails the export succeeds and the table is the header followed by one row for each entry
  with a snapshot and none for an entry without; so there are as many data rows as entries
  with a snapshot, and their first fields are the IDs of those entries, in order.
\<close>

theorem statistics_rows_per_snapshot:
  "ExportAnimeStatistics fs animeList =
     ExportAnimeStatistics fs (filter (\<lambda>anime. Statistics anime \<noteq> None) animeList) \<and>
   (createErr fs AnimeStatisticsCSV = None \<and> (\<forall>n. writeErr fs AnimeStatisticsCSV n = None) \<longrightarrow>
      ExportAnimeStatistics fs animeList = (None, statisticsHeader # snapshotRows animeList)) \<and>
   length (snapshotRows animeList) = length (filter (\<lambda>anime. Statistics anime \<noteq> None) animeList) \<and>
   map hd (snapshotRows animeList) =
     map (\<lambda>anime. Itoa (MalID anime)) (filter (\<lambda>anime. Statistics anime \<noteq> None) animeList)"
  using statisticsLoop_skips [of "writeErr fs AnimeStatisticsCSV" animeList]
  by (auto simp: ExportAnimeStatistics_def statisticsLoop_ok Write_def snapshotRows_count snapshotRows_ids
      split: option.splits sum.splits)

theorem statistics_rows_per_snapshot_witness:
  "ExportAnimeStatistics noErrors plainRun1 =
     (None, [statisticsHeader,
             [''1'', ''0'', ''0'', ''0'', ''0'', ''0'', ''0'',
              ''5'', ''12.34'', ''0'', ''0'', ''0'', ''0'', ''0'', ''0'', ''0'', ''0'', ''0'', ''0'',
              ''2'', ''3.00'', ''0'', ''0'', ''0'', ''0'', ''0'', ''0'']]) \<and>
   length (filter (\<lambda>anime. Statistics anime \<noteq> None) plainRun1) = 1 \<and>
   length plainRun1 = 2"
proof -
  have "createErr noErrors AnimeStatisticsCSV = None \<and>
      (\<forall>n. writeErr noErrors AnimeStatisticsCSV n = None)"
    by (simp add: noErrors_def)
  with statistics_rows_per_snapshot [of noErrors plainRun1]
  have table: "ExportAnimeStatistics noErrors plainRun1 =
      (None, statisticsHeader # snapshotRows plainRun1)"
    and count: "length (snapshotRows plainRun1) =
      length (filter (\<lambda>anime. Statistics anime \<noteq> None) plainRun1)"
    by blast+
  have rows: "snapshotRows plainRun1 =
      [[''1'', ''0'', ''0'', ''0'', ''0'', ''0'', ''0'',
        ''5'', ''12.34'', ''0'', ''0'', ''0'', ''0'', ''0'', ''0'', ''0'', ''0'', ''0'', ''0'',
        ''2'', ''3.00'', ''0'', ''0'', ''0'', ''0'', ''0'', ''0'']]"
    by code_simp
  have "length plainRun1 = 2" by (simp add: plainRun1_def)
  with table count [symmetric] rows show ?thesis by (simp only: list.size) simp
qed

subsection \<open>Two runs over the same input\<close>

lemma sameAnime_rows:
  assumes "sameAnime a b"
  shows "basicRow a = basicRow b" and "MalID a = MalID b"
    and "Genres a = Genres b" and "Studios a = Studios b"
proof -
  from assms have b: "b = a\<lparr>Statistics := Statistics b\<rparr>" by (simp add: sameAnime_def)
  show "basicRow a = basicRow b" by (subst b) (simp add: basicRow_def)
  show "MalID a = MalID b" by (subst b) simp
  show "Genres a = Genres b" by (subst b) simp
  show "Studios a = Studios b" by (subst b) simp
qed

lemma basicLoop_same:
  "list_all2 sameAnime run1 run2 \<Longrightarrow> basicLoop werr run1 written = basicLoop werr run2 written"
proof (induction run1 run2 arbitrary: written rule: list_all2_induct)
  case Nil
  then show ?case by simp
next
  case (Cons a run1 b run2)
  then show ?case by (simp add: sameAnime_rows(1) [of a b] split: sum.splits)
qed

lemma tagInner_same:
  "MalID a = MalID b \<Longrightarrow> tagInner werr a ts written = tagInner werr b ts written"
  by (induction ts arbitrary: written) (simp_all add: tagRow_def split: sum.splits)

lemma tagLoop_same:
  assumes "list_all2 sameAnime run1 run2" and "\<And>a b. sameAnime a b \<Longrightarrow> tags a = tags b"
  shows "tagLoop werr tags run1 written = tagLoop werr tags run2 written"
  using assms(1)
proof (induction run1 run2 arbitrary: written rule: list_all2_induct)
  case Nil
  then show ?case by simp
next
  case (Cons a run1 b run2)
  from Cons.hyps(1) have "tagInner werr a (tags a) written = tagInner werr b (tags b) written"
    using tagInner_same [of a b werr "tags a" written] assms(2) [of a b]
    by (simp add: sameAnime_rows(2))
  with Cons.IH show ?case by (simp split: prod.splits option.splits)
qed

lemma statisticsRow_same:
  assumes "MalID a = MalID b" and "sameStatistics s t" and "scoresUnambiguous (Scores s)"
  shows "statisticsRow a s = statisticsRow b t"
proof -
  from assms(2) have t: "t = s\<lparr>Scores := Scores t\<rparr>" and "mset (Scores s) = mset (Scores t)"
    by (simp_all add: sameStatistics_def)
  with assms(3) have "fillScores (Scores s) = fillScores (Scores t)"
    by (intro fillScores_permuted)
  with assms(1) show ?thesis by (subst t) (simp add: statisticsRow_def)
qed

lemma statisticsLoop_same:
  assumes "list_all2 sameAnime run1 run2"
    and "\<forall>a \<in> set run1. \<forall>s. Statistics a = Some s \<longrightarrow> scoresUnambiguous (Scores s)"
  shows "statisticsLoop werr run1 written = statisticsLoop werr run2 written"
  using assms
proof (induction run1 run2 arbitrary: written rule: list_all2_induct)
  case Nil
  then show ?case by simp
next
  case (Cons a run1 b run2)
  from Cons.prems have rest: "\<And>written. statisticsLoop werr run1 written = statisticsLoop werr run2 written"
    by (intro Cons.IH) simp
  from Cons.hyps(1) have rel: "rel_option sameStatistics (Statistics a) (Statistics b)"
    by (simp add: sameAnime_def)
  show ?case
  proof (cases "Statistics a")
    case None
    with rel have "Statistics b = None" by (cases "Statistics b") simp_all
    with None rest show ?thesis by simp
  next
    case (Some s)
    with rel obtain t where t: "Statistics b = Some t" and st: "sameStatistics s t"
      by (cases "Statistics b") simp_all
    from Some Cons.prems have "scoresUnambiguous (Scores s)" by simp
    with st Cons.hyps(1) have "statisticsRow a s = statisticsRow b t"
      by (intro statisticsRow_same) (simp_all add: sameAnime_rows(2))
    with Some t rest show ?thesis by (simp split: sum.splits)
  qed
qed

text \<open>
  Claim C6, as stated: two runs over the same input produce identical tables. The
  statistics export ranges over the \<^verbatim>\<open>Scores\<close> map, in an order Go does not fix, and the
  keys \<^verbatim>\<open>"1"\<close> and \<^verbatim>\<open>"01"\<close> are two keys of one map that are both written to the columns of
  score 1: the entry ranged over last wins. The two runs below see the same entry and
  write different statistics tables.
\<close>

theorem exports_deterministic_counterexample:
  "list_all2 sameAnime ambiguousRun1 ambiguousRun2 \<and>
   list_all (\<lambda>a. case Statistics a of None \<Rightarrow> True | Some s \<Rightarrow> wfScores (Scores s)) ambiguousRun1 \<and>
   ExportAnimeStatistics noErrors ambiguousRun1 \<noteq> ExportAnimeStatistics noErrors ambiguousRun2"
  by code_simp

text \<open>
  Claim C6, amended by the hypothesis that in no snapshot two keys denote the same score
  from 1 to 10. Two runs whose inputs differ at most in the order in which the score maps
  are ranged over then write the same basic, genre, studio and statistics tables, under
  the same file system. The reviews export ranges over no map: it is a function of the
  list of reviews and of the file system.
\<close>

theorem exports_deterministic:
  assumes "list_all2 sameAnime run1 run2"
    and "\<forall>a \<in> set run1. \<forall>s. Statistics a = Some s \<longrightarrow> scoresUnambiguous (Scores s)"
  shows "ExportAnimeBasicData fs run1 = ExportAnimeBasicData fs run2 \<and>
         ExportAnimeGenres fs run1 = ExportAnimeGenres fs run2 \<and>
         ExportAnimeStudios fs run1 = ExportAnimeStudios fs run2 \<and>
         ExportAnimeStatistics fs run1 = ExportAnimeStatistics fs run2"
  using basicLoop_same [OF assms(1)] statisticsLoop_same [OF assms]
    tagLoop_same [OF assms(1), of Genres] tagLoop_same [OF assms(1), of Studios]
  by (simp add: ExportAnimeBasicData_def ExportAnimeGenres_def ExportAnimeStudios_def
      ExportAnimeStatistics_def sameAnime_rows split: option.splits sum.splits)

theorem exports_deterministic_witness:
  "list_all2 sameAnime plainRun1 plainRun2 \<and>
   list_all (\<lambda>a. case Statistics a of None \<Rightarrow> True | Some s \<Rightarrow> scoresUnambiguous (Scores s))
     plainRun1 \<and>
   plainRun1 \<noteq> plainRun2 \<and>
   ExportAnimeStatistics noErrors plainRun1 = ExportAnimeStatistics noErrors plainRun2 \<and>
   ExportAnimeBasicData noErrors plainRun1 = ExportAnimeBasicData noErrors plainRun2"
proof -
  have same: "list_all2 sameAnime plainRun1 plainRun2"
    by code_simp
  have unamb: "list_all (\<lambda>a. case Statistics a of None \<Rightarrow> True
      | Some s \<Rightarrow> scoresUnambiguous (Scores s)) plainRun1"
    by code_simp
  then have "\<forall>a \<in> set plainRun1. \<forall>s. Statistics a = Some s \<longrightarrow> scoresUnambiguous (Scores s)"
    by (auto simp: list_all_iff)
  from exports_deterministic [OF same this, of noErrors] same unamb
  have "list_all2 sameAnime plainRun1 plainRun2 \<and>
   list_all (\<lambda>a. case Statistics a of None \<Rightarrow> True | Some s \<Rightarrow> scoresUnambiguous (Scores s))
     plainRun1 \<and>
   ExportAnimeStatistics noErrors plainRun1 = ExportAnimeStatistics noErrors plainRun2 \<and>
   ExportAnimeBasicData noErrors plainRun1 = ExportAnimeBasicData noErrors plainRun2"
    by simp
  moreover have "plainRun1 \<noteq> plainRun2" by code_simp
  ultimately show ?thesis by simp
qed


section \<open>Properties of the collector\<close>

lemma detailsLoop_results:
  "fst (detailsLoop srv dec limit i items enriched w) =
     enriched @ succeeded (detailResults srv dec (take (nat (limit - i)) items) w)"
proof (induction items arbitrary: i enriched w)
  case Nil
  then show ?case by simp
next
  case (Cons anime rest)
  show ?case
  proof (cases "i \<ge> limit")
    case True
    then show ?thesis by simp
  next
    case False
    then have "nat (limit - i) = Suc (nat (limit - (i + 1)))"
      by linarith
    then have tk: "take (nat (limit - i)) (anime # rest) = anime # take (nat (limit - (i + 1))) rest"
      by simp
    obtain res w' where g: "GetAnimeDetails srv dec (MalID anime) w = (res, w')"
      by (cases "GetAnimeDetails srv dec (MalID anime) w")
    show ?thesis
    proof (cases res)
      case (Inl err)
      with False g tk Cons.IH [of "i + 1" enriched w'] show ?thesis by simp
    next
      case (Inr d)
      with False g tk Cons.IH [of "i + 1" "enriched @ [d]" "Sleep RateLimitDelay w'"]
      show ?thesis by simp
    qed
  qed
qed

lemma length_detailResults [simp]: "length (detailResults srv dec items w) = length items"
  by (induction items arbitrary: w) (auto split: prod.splits sum.splits)

lemma length_reviewResults [simp]: "length (reviewResults srv dec reviewLimit items w) = length items"
  by (induction items arbitrary: w) (auto split: prod.splits)

lemma reviewsLoop_results:
  "0 \<le> i \<Longrightarrow> n \<le> int (length topAnime) \<Longrightarrow>
     fst (reviewsLoop srv dec reviewLimit n topAnime i allReviews w) =
       allReviews @
       concat (succeeded
         (reviewResults srv dec reviewLimit (drop (nat i) (take (nat n) topAnime)) w))"
proof (induction srv dec reviewLimit n topAnime i allReviews w rule: reviewsLoop.induct)
  case (1 srv dec reviewLimit n topAnime i allReviews w)
  show ?case
  proof (cases "i < n")
    case False
    then show ?thesis by (subst reviewsLoop.simps) simp
  next
    case True
    with "1.prems" have "nat i < length (take (nat n) topAnime)" by simp
    then have dr: "drop (nat i) (take (nat n) topAnime) =
        topAnime ! nat i # drop (nat (i + 1)) (take (nat n) topAnime)"
      using "1.prems"(1) by (simp add: Cons_nth_drop_Suc [symmetric] nat_add_distrib)
    obtain res w' where g: "GetAnimeReviews srv dec (MalID (topAnime ! nat i)) reviewLimit w = (res, w')"
      by (cases "GetAnimeReviews srv dec (MalID (topAnime ! nat i)) reviewLimit w")
    show ?thesis
    proof (cases res)
      case (Inl err)
      with True g dr "1.IH"(1) [OF True g [symmetric] Inl] "1.prems" show ?thesis
        by (subst reviewsLoop.simps) simp
    next
      case (Inr reviews)
      with True g dr "1.IH"(2) [OF True g [symmetric] Inr] "1.prems" show ?thesis
        by (subst reviewsLoop.simps) simp
    qed
  qed
qed


lemma basicLoop_ok:
  "\<forall>n. werr n = None \<Longrightarrow> basicLoop werr animeList written = (None, written @ map basicRow animeList)"
  by (induction animeList arbitrary: written) (auto simp: Write_def)

lemma tagInner_ok:
  "\<forall>n. werr n = None \<Longrightarrow> tagInner werr anime ts written = (None, written @ map (tagRow anime) ts)"
  by (induction ts arbitrary: written) (auto simp: Write_def)

lemma tagLoop_ok:
  "\<forall>n. werr n = None \<Longrightarrow>
     tagLoop werr tags animeList written =
       (None, written @ concat (map (\<lambda>anime. map (tagRow anime) (tags anime)) animeList))"
  by (induction animeList arbitrary: written) (auto simp: tagInner_ok)

lemma exports_ok:
  assumes "\<forall>path. createErr fs path = None" and "\<forall>path n. writeErr fs path n = None"
  shows "ExportAnimeBasicData fs animeList = (None, basicHeader # map basicRow animeList)"
    and "ExportAnimeGenres fs animeList =
      (None, [''anime_id'', ''genre_id'', ''genre_name''] #
             concat (map (\<lambda>anime. map (tagRow anime) (Genres anime)) animeList))"
    and "ExportAnimeStudios fs animeList =
      (None, [''anime_id'', ''studio_id'', ''studio_name''] #
             concat (map (\<lambda>anime. map (tagRow anime) (Studios anime)) animeList))"
    and "ExportAnimeStatistics fs animeList = (None, statisticsHeader # snapshotRows animeList)"
    and "ExportAnimeReviews fs reviews = (None, reviewsHeader # map reviewRow reviews)"
  using assms
  by (simp_all add: ExportAnimeBasicData_def ExportAnimeGenres_def ExportAnimeStudios_def
      ExportAnimeStatistics_def ExportAnimeReviews_def Write_def basicLoop_ok tagLoop_ok
      statisticsLoop_ok reviewsWriteLoop_ok)

text \<open>
  Claim C9. Take a run in which the output directory is made, the ranked list is fetched
  and no file operation fails, and let the detail fetches and the review fetches have any
  outcomes. Then the run returns no error; each of the first 100 entries has its detail
  fetch and each of the first 20 its review fetch, whatever the outcomes of the fetches
  before it; the statistics table is made of the details that arrived and the reviews
  table of the reviews that arrived, in order, the items whose fetch failed being absent.
\<close>

theorem enrichment_failures_do_not_abort:
  assumes "Initialize fs = None"
    and "\<forall>path. createErr fs path = None" and "\<forall>path n. writeErr fs path n = None"
    and "GetTopAnime srv decTop MaxItemsToFetch w = (Inr topAnime, w1)"
    and "details = detailResults srv decDetails (take 100 topAnime) w1"
    and "reviews = reviewResults srv decReviews 50 (take 20 topAnime)
           (snd (detailsLoop srv decDetails 100 0 topAnime [] w1))"
  shows "fst (CollectAnimeData srv decTop decDetails decReviews fs w) = None \<and>
         length details = min 100 (length topAnime) \<and>
         length reviews = min 20 (length topAnime) \<and>
         map_of (fst (snd (CollectAnimeData srv decTop decDetails decReviews fs w)))
           AnimeStatisticsCSV = Some (statisticsHeader # snapshotRows (succeeded details)) \<and>
         map_of (fst (snd (CollectAnimeData srv decTop decDetails decReviews fs w)))
           AnimeReviewsCSV = Some (reviewsHeader # map reviewRow (concat (succeeded reviews)))"
proof -
  obtain enriched w2 where dl: "detailsLoop srv decDetails 100 0 topAnime [] w1 = (enriched, w2)"
    by (cases "detailsLoop srv decDetails 100 0 topAnime [] w1")
  obtain allReviews w3 where rl:
    "reviewsLoop srv decReviews 50 (min 20 (int (length topAnime))) topAnime 0 [] w2 = (allReviews, w3)"
    by (cases "reviewsLoop srv decReviews 50 (min 20 (int (length topAnime))) topAnime 0 [] w2")
  have enriched: "enriched = succeeded details"
    using detailsLoop_results [of srv decDetails 100 0 topAnime "[]" w1] dl assms(5) by simp
  have "nat (min 20 (int (length topAnime))) = min 20 (length topAnime)"
    by simp
  then have "take (nat (min 20 (int (length topAnime)))) topAnime = take 20 topAnime"
    by (simp add: min_def)
  then have allReviews: "allReviews = concat (succeeded reviews)"
    using reviewsLoop_results [of 0 "min 20 (int (length topAnime))" topAnime srv decReviews 50 "[]" w2]
      rl dl assms(6) by simp
  have paths: "AnimeStatisticsCSV \<noteq> AnimeBasicCSV" "AnimeStatisticsCSV \<noteq> AnimeGenresCSV"
    "AnimeStatisticsCSV \<noteq> AnimeStudiosCSV" "AnimeReviewsCSV \<noteq> AnimeBasicCSV"
    "AnimeReviewsCSV \<noteq> AnimeGenresCSV" "AnimeReviewsCSV \<noteq> AnimeStudiosCSV"
    "AnimeReviewsCSV \<noteq> AnimeStatisticsCSV"
    by (simp_all add: AnimeBasicCSV_def AnimeGenresCSV_def AnimeStudiosCSV_def
        AnimeStatisticsCSV_def AnimeReviewsCSV_def)
  have "CollectAnimeData srv decTop decDetails decReviews fs w =
      (None,
       [(AnimeBasicCSV, basicHeader # map basicRow topAnime),
        (AnimeGenresCSV, [''anime_id'', ''genre_id'', ''genre_name''] #
           concat (map (\<lambda>anime. map (tagRow anime) (Genres anime)) topAnime)),
        (AnimeStudiosCSV, [''anime_id'', ''studio_id'', ''studio_name''] #
           concat (map (\<lambda>anime. map (tagRow anime) (Studios anime)) topAnime)),
        (AnimeStatisticsCSV, statisticsHeader # snapshotRows enriched),
        (AnimeReviewsCSV, reviewsHeader # map reviewRow allReviews)], w3)"
    using assms(1,4) dl rl
    by (simp add: CollectAnimeData_def exports_ok [OF assms(2,3)] MaxItemsToFetch_def)
  moreover have "length details = min 100 (length topAnime)"
    and "length reviews = min 20 (length topAnime)"
    using assms(5,6) by (simp_all add: min.commute)
  ultimately show ?thesis
    using paths enriched allReviews by simp
qed

theorem enrichment_failures_do_not_abort_witness:
  "fst (GetTopAnime collectServer decodeTop MaxItemsToFetch w0) = Inr [animeWithID 1, animeWithID 2] \<and>
   detailResults collectServer decodeDetails [animeWithID 1, animeWithID 2]
       (snd (GetTopAnime collectServer decodeTop MaxItemsToFetch w0)) =
     [Inl (Exhausted (StatusError 500)), Inr detailedAnime2] \<and>
   fst (CollectAnimeData collectServer decodeTop decodeDetails decodeReviews noErrors w0) = None \<and>
   map_of (fst (snd (CollectAnimeData collectServer decodeTop decodeDetails decodeReviews noErrors w0)))
       AnimeStatisticsCSV =
     Some [statisticsHeader, statisticsRow detailedAnime2 (blankStatistics\<lparr>Scores := [score1, score7]\<rparr>)] \<and>
   map_of (fst (snd (CollectAnimeData collectServer decodeTop decodeDetails decodeReviews noErrors w0)))
       AnimeReviewsCSV =
     Some [reviewsHeader, reviewRow sampleReview]"
proof -
  let ?w1 = "snd (GetTopAnime collectServer decodeTop MaxItemsToFetch w0)"
  let ?top = "[animeWithID 1, animeWithID 2]"
  let ?w2 = "snd (detailsLoop collectServer decodeDetails 100 0 ?top [] ?w1)"
  have top: "GetTopAnime collectServer decodeTop MaxItemsToFetch w0 = (Inr ?top, ?w1)"
    by code_simp
  have details: "detailResults collectServer decodeDetails ?top ?w1 =
      [Inl (Exhausted (StatusError 500)), Inr detailedAnime2]"
    by code_simp
  have reviews: "reviewResults collectServer decodeReviews 50 ?top ?w2 =
      [Inl (Exhausted (StatusError 500)), Inr [sampleReview]]"
    by code_simp
  have fs: "Initialize noErrors = None" "\<forall>path. createErr noErrors path = None"
    "\<forall>path n. writeErr noErrors path n = None"
    by (simp_all add: noErrors_def Initialize_def)
  have rows: "snapshotRows [detailedAnime2] =
      [statisticsRow detailedAnime2 (blankStatistics\<lparr>Scores := [score1, score7]\<rparr>)]"
    by (simp add: snapshotRows_def detailedAnime2_def)
  have "take 100 ?top = ?top" and "take 20 ?top = ?top"
    by simp_all
  with details reviews
  have "[Inl (Exhausted (StatusError 500)), Inr detailedAnime2] =
      detailResults collectServer decodeDetails (take 100 ?top) ?w1"
    and "[Inl (Exhausted (StatusError 500)), Inr [sampleReview]] =
      reviewResults collectServer decodeReviews 50 (take 20 ?top) ?w2"
    by (simp_all only:)
  from enrichment_failures_do_not_abort [OF fs top this] rows
  have run: "fst (CollectAnimeData collectServer decodeTop decodeDetails decodeReviews noErrors w0) = None \<and>
   map_of (fst (snd (CollectAnimeData collectServer decodeTop decodeDetails decodeReviews noErrors w0)))
       AnimeStatisticsCSV =
     Some [statisticsHeader, statisticsRow detailedAnime2 (blankStatistics\<lparr>Scores := [score1, score7]\<rparr>)] \<and>
   map_of (fst (snd (CollectAnimeData collectServer decodeTop decodeDetails decodeReviews noErrors w0)))
       AnimeReviewsCSV =
     Some [reviewsHeader, reviewRow sampleReview]"
    by simp
  have "fst (GetTopAnime collectServer decodeTop MaxItemsToFetch w0) = Inr ?top"
    using top by (metis fst_conv)
  with run details show ?thesis by blast
qed

end
